theory Spec2Isabelle
  imports Complex_Main
begin

section \<open>JavaScript values used by the astrology core\<close>

text \<open>
  A JavaScript Number is idealised as a real (no rounding, no infinities); the one
  non-finite value the code can produce itself, NaN, is kept as a value of its own.
  A value that may be absent (\<open>undefined\<close>, \<open>null\<close>, a missing property) is an
  \<open>option\<close>. An exception is the left summand of a sum type.
\<close>

datatype jsnum = Num real | NaN

datatype js_error = TypeError string | Error string

text \<open>\<open>Math.trunc\<close> and the remainder operator \<open>%\<close>: the result of \<open>a % b\<close> has the
  sign of the dividend.\<close>

definition js_trunc :: "real \<Rightarrow> int" where
  "js_trunc x = (if 0 \<le> x then \<lfloor>x\<rfloor> else \<lceil>x\<rceil>)"

definition js_rem :: "real \<Rightarrow> real \<Rightarrow> real" where
  "js_rem a b = a - b * of_int (js_trunc (a / b))"

text \<open>The same operator on integer-valued operands.\<close>

definition js_rem_int :: "int \<Rightarrow> int \<Rightarrow> int" where
  "js_rem_int a b = a - b * js_trunc (of_int a / of_int b)"

text \<open>The idiom \<open>(x % 360 + 360) % 360\<close> of \<open>astroLogic.js\<close>.\<close>

definition normalize360 :: "real \<Rightarrow> real" where
  "normalize360 x = js_rem (js_rem x 360 + 360) 360"

text \<open>Decimal rendering of an integer, as \<open>String(n)\<close> and template literals do.\<close>

definition digit_char :: "nat \<Rightarrow> char" where
  "digit_char d = ''0123456789'' ! d"

function digits :: "int \<Rightarrow> string" where
  "digits n =
     (if n < 10 then [digit_char (nat n)]
      else digits (n div 10) @ [digit_char (nat (n mod 10))])"
  by pat_completeness auto
termination
  by (relation "measure nat") auto

declare digits.simps [simp del]

definition String_int :: "int \<Rightarrow> string" where
  "String_int i = (if i < 0 then CHR ''-'' # digits (- i) else digits i)"

definition padStart :: "nat \<Rightarrow> char \<Rightarrow> string \<Rightarrow> string" where
  "padStart n c s = replicate (n - length s) c @ s"

text \<open>A string is the sequence of its UTF-16 code units, as \<open>.length\<close> counts them; the
  texts of this development have code units below 256 only. Characters that cannot stand
  in a string literal here: the degree sign (U+00B0, one code unit), the apostrophe, the
  double quote and the line feed.\<close>

definition degree_sign :: string where
  "degree_sign = [CHR 0xB0]"

definition apostrophe :: string where
  "apostrophe = [CHR 0x27]"

text \<open>The error of reading a property of \<open>undefined\<close>.\<close>

definition undefined_read :: "string \<Rightarrow> js_error" where
  "undefined_read property =
     TypeError (''Cannot read properties of undefined (reading '' @ apostrophe @ property
                @ apostrophe @ '')'')"

definition dquote :: string where
  "dquote = [CHR 0x22]"

definition newline :: string where
  "newline = [CHR 0x0A]"

text \<open>ASCII \<open>toUpperCase\<close>.\<close>

definition upper_char :: "char \<Rightarrow> char" where
  "upper_char c =
     (case List.find (\<lambda>p. fst p = c) (zip ''abcdefghijklmnopqrstuvwxyz'' ''ABCDEFGHIJKLMNOPQRSTUVWXYZ'') of
        Some p \<Rightarrow> snd p
      | None \<Rightarrow> c)"

definition toUpperCase :: "string \<Rightarrow> string" where
  "toUpperCase s = map upper_char s"

section \<open>astroLogic.js: longitude formatting and house placement\<close>

definition ZODIAC_SIGNS :: "string list" where
  "ZODIAC_SIGNS =
     [''Aries'', ''Taurus'', ''Gemini'', ''Cancer'', ''Leo'', ''Virgo'',
      ''Libra'', ''Scorpio'', ''Sagittarius'', ''Capricorn'', ''Aquarius'', ''Pisces'']"

text \<open>Array indexing in a template literal: an index outside the array reads
  \<open>undefined\<close>, printed as such.\<close>

definition sign_name :: "int \<Rightarrow> string" where
  "sign_name i =
     (if 0 \<le> i \<and> nat i < length ZODIAC_SIGNS then ZODIAC_SIGNS ! nat i else ''undefined'')"

text \<open>\<open>formatLongitude(totalDegrees)\<close>: \<open>None\<close> is an argument that is not of type
  number.\<close>

definition formatLongitude :: "jsnum option \<Rightarrow> string" where
  "formatLongitude totalDegrees =
     (case totalDegrees of
        None \<Rightarrow> ''N/A''
      | Some NaN \<Rightarrow> ''N/A''
      | Some (Num t) \<Rightarrow>
          (let correctedDegrees = normalize360 t;
               signIndex = \<lfloor>correctedDegrees / 30\<rfloor>;
               degreesInSign = js_rem correctedDegrees 30;
               degrees = \<lfloor>degreesInSign\<rfloor>;
               minutesDecimal = (degreesInSign - of_int degrees) * 60;
               minutes = \<lfloor>minutesDecimal\<rfloor>;
               seconds = \<lfloor>(minutesDecimal - of_int minutes) * 60\<rfloor>
           in String_int degrees @ degree_sign @ '' '' @ sign_name signIndex @ '' ''
              @ padStart 2 (CHR ''0'') (String_int minutes) @ apostrophe @ '' ''
              @ padStart 2 (CHR ''0'') (String_int seconds) @ dquote))"

text \<open>The result of \<open>getHousePlacement\<close>: a house number, \<open>null\<close>, or the NaN that the
  whole-sign arithmetic yields on an ascendant that is not a number.\<close>

datatype placement = House int | Null | NaNHouse

text \<open>The test of one loop iteration: is the longitude in the house that starts at
  \<open>cusp1\<close> and ends at \<open>cusp2\<close>?\<close>

definition in_house :: "real \<Rightarrow> real \<Rightarrow> real \<Rightarrow> bool" where
  "in_house cusp1 cusp2 planetLon =
     (if cusp1 \<le> cusp2 then planetLon \<ge> cusp1 \<and> planetLon < cusp2
      else (planetLon \<ge> cusp1 \<and> planetLon < 360) \<or> (planetLon \<ge> 0 \<and> planetLon < cusp2))"

text \<open>The loop \<open>for (let i = 0; i < 12; i++)\<close>, from index \<open>i\<close> on; the cusp array has
  twelve entries when the loop is reached.\<close>

function cusp_loop :: "real list \<Rightarrow> real \<Rightarrow> nat \<Rightarrow> placement" where
  "cusp_loop houseCusps planetLon i =
     (if i < 12 then
        (let cusp1 = normalize360 (houseCusps ! i);
             cusp2 = normalize360 (houseCusps ! ((i + 1) mod 12))
         in if in_house cusp1 cusp2 planetLon then House (int i + 1)
            else cusp_loop houseCusps planetLon (i + 1))
      else Null)"
  by pat_completeness auto
termination
  by (relation "measure (\<lambda>(houseCusps, planetLon, i). 12 - i)") auto

declare cusp_loop.simps [simp del]

text \<open>\<open>getHousePlacement(planetLongitude, houseCusps, ascendantLongitude, houseSystem)\<close>.
  A missing cusp array gives \<open>null\<close>; a missing house system makes
  \<open>houseSystem.toUpperCase()\<close> throw; a missing ascendant is \<open>undefined\<close>, which the
  whole-sign arithmetic turns into NaN.\<close>

definition getHousePlacement ::
  "real \<Rightarrow> real list option \<Rightarrow> real option \<Rightarrow> string option \<Rightarrow> js_error + placement" where
  "getHousePlacement planetLongitude houseCusps ascendantLongitude houseSystem =
     (case houseCusps of
        None \<Rightarrow> Inr Null
      | Some cusps \<Rightarrow>
          if length cusps \<noteq> 12 then Inr Null
          else
            (let planetLon = normalize360 planetLongitude in
             case houseSystem of
               None \<Rightarrow> Inl (undefined_read ''toUpperCase'')
             | Some hs \<Rightarrow>
                 if toUpperCase hs = ''W'' then
                   (case ascendantLongitude of
                      None \<Rightarrow> Inr NaNHouse
                    | Some asc \<Rightarrow>
                        (let ascSignIndex = \<lfloor>normalize360 asc / 30\<rfloor>;
                             planetSignIndex = \<lfloor>planetLon / 30\<rfloor>;
                             house = js_rem_int (planetSignIndex - ascSignIndex + 12) 12
                         in Inr (House (house + 1))))
                 else Inr (cusp_loop cusps planetLon 0)))"

section \<open>claude.js: insight generation with retry, fallback and usage logging\<close>

text \<open>Arithmetic on numbers that may be NaN: NaN is absorbing.\<close>

fun js_div :: "jsnum \<Rightarrow> jsnum \<Rightarrow> jsnum" where
  "js_div (Num a) (Num b) = Num (a / b)"
| "js_div _ _ = NaN"

fun js_mul :: "jsnum \<Rightarrow> jsnum \<Rightarrow> jsnum" where
  "js_mul (Num a) (Num b) = Num (a * b)"
| "js_mul _ _ = NaN"

fun js_add :: "jsnum \<Rightarrow> jsnum \<Rightarrow> jsnum" where
  "js_add (Num a) (Num b) = Num (a + b)"
| "js_add _ _ = NaN"

text \<open>The module's configuration: whether \<open>CLAUDE_API_KEY\<close> is set (the client
  \<open>anthropic\<close> is not null), and the two model ids, read from the environment.\<close>

record config =
  has_client :: bool
  PREMIUM_MODEL :: string
  BASIC_MODEL :: string

record message =
  role :: string
  content :: string

text \<open>What the provider answers: the text of each content block (the request carries no
  tools, so every block is a text block) and the usage counts, which the code does not
  take for granted.\<close>

record usage =
  input_tokens :: nat
  output_tokens :: nat

record response =
  resp_content :: "string list"
  resp_usage :: "usage option"

record provider_error =
  err_message :: string
  err_response_data :: "string option"

text \<open>The row handed to \<open>prisma.apiLog.create\<close>. The two payloads are kept as data;
  their JSON encoding is not modelled.\<close>

datatype payload = ContentPayload "string list" | ErrorPayload "string option"

record api_log =
  userId :: "nat option"
  apiService :: string
  endpoint :: string
  tokenCountIn :: "jsnum option"
  tokenCountOut :: "jsnum option"
  cost :: "jsnum option"
  isSuccess :: bool
  errorMessage :: "string option"
  requestData :: "string \<times> message list"
  responseData :: payload

text \<open>What a call does to the outside, in order: a request to the provider (attempt
  number and model), a row handed to the store (and whether the store accepted it), a
  wait in milliseconds.\<close>

datatype event = ProviderCall nat string | LedgerWrite api_log bool | Backoff nat

text \<open>\<open>logClaudeApiCall\<close>: one \<open>create\<close>; an error of the store is caught and only
  logged. The store's answer is an oracle on the position in the run.\<close>

definition logClaudeApiCall :: "(nat \<Rightarrow> bool) \<Rightarrow> api_log \<Rightarrow> event list \<Rightarrow> event list" where
  "logClaudeApiCall db row tr = tr @ [LedgerWrite row (db (length tr))]"

text \<open>An entry of the price table: \<open>input\<close> and \<open>output\<close>, dollars per million
  tokens.\<close>

record pricing =
  price_input :: real
  price_output :: real

text \<open>The object literal \<open>MODEL_PRICING\<close>: of two equal computed keys the later one
  stands.\<close>

definition MODEL_PRICING :: "config \<Rightarrow> string \<Rightarrow> pricing option" where
  "MODEL_PRICING cfg =
     [PREMIUM_MODEL cfg \<mapsto> \<lparr>price_input = 3, price_output = 15\<rparr>,
      BASIC_MODEL cfg \<mapsto> \<lparr>price_input = 0.25, price_output = 1.25\<rparr>]"

definition calculateCost :: "config \<Rightarrow> string \<Rightarrow> jsnum \<Rightarrow> jsnum \<Rightarrow> jsnum" where
  "calculateCost cfg model inputTokens outputTokens =
     (case MODEL_PRICING cfg model of
        None \<Rightarrow> Num 0
      | Some pricing \<Rightarrow>
          (let inputCost = js_mul (js_div inputTokens (Num 1000000)) (Num (price_input pricing));
               outputCost = js_mul (js_div outputTokens (Num 1000000)) (Num (price_output pricing))
           in js_add inputCost outputCost))"

text \<open>\<open>reported || estimate\<close>: a count that is missing or zero is falsy.\<close>

definition or_estimate :: "nat option \<Rightarrow> jsnum \<Rightarrow> jsnum" where
  "or_estimate reported estimate =
     (case reported of
        None \<Rightarrow> estimate
      | Some n \<Rightarrow> if n = 0 then estimate else Num (real n))"

fun join :: "string \<Rightarrow> string list \<Rightarrow> string" where
  "join sep [] = []"
| "join sep [x] = x"
| "join sep (x # y # ys) = x @ sep @ join sep (y # ys)"

text \<open>\<open>response.content[0]?.text.length / 4\<close>: without a first block the optional
  chain gives \<open>undefined\<close>, and the division NaN.\<close>

definition first_text_estimate :: "string list \<Rightarrow> jsnum" where
  "first_text_estimate blocks =
     (case blocks of [] \<Rightarrow> NaN | t # _ \<Rightarrow> Num (real (length t) / 4))"

record insight =
  ins_content :: string
  modelUsed :: string
  ins_usage :: "usage option"
  ins_cost :: jsnum

definition maxAttempts :: nat where
  "maxAttempts = 2"

text \<open>The loop \<open>while (attempt <= maxAttempts)\<close> of \<open>getClaudeInsight\<close>, from the state
  (\<open>modelToUse\<close>, \<open>attempt\<close>) on. The provider is an oracle on the attempt number and the
  model requested. \<open>Inr None\<close> is the \<open>undefined\<close> a call returns that leaves the loop
  by its condition.\<close>

function attempt_loop ::
  "config \<Rightarrow> (nat \<Rightarrow> string \<Rightarrow> provider_error + response) \<Rightarrow> (nat \<Rightarrow> bool)
   \<Rightarrow> string \<Rightarrow> message list \<Rightarrow> nat option \<Rightarrow> string \<Rightarrow> nat \<Rightarrow> event list
   \<Rightarrow> (js_error + insight option) \<times> event list" where
  "attempt_loop cfg provider db systemPrompt messages uid modelToUse attempt tr =
     (if attempt \<le> maxAttempts then
        (case provider attempt modelToUse of
           Inr response \<Rightarrow>
             (let inputText = join newline (map content messages);
                  promptTokens =
                    or_estimate (map_option input_tokens (resp_usage response))
                      (Num (real (length inputText) / 4));
                  completionTokens =
                    or_estimate (map_option output_tokens (resp_usage response))
                      (first_text_estimate (resp_content response));
                  cost = calculateCost cfg modelToUse promptTokens completionTokens;
                  tr' = logClaudeApiCall db
                    \<lparr>userId = uid, apiService = ''Claude'', endpoint = modelToUse,
                     tokenCountIn = Some promptTokens, tokenCountOut = Some completionTokens,
                     cost = Some cost, isSuccess = True, errorMessage = None,
                     requestData = (systemPrompt, messages),
                     responseData = ContentPayload (resp_content response)\<rparr>
                    (tr @ [ProviderCall attempt modelToUse])
              in (Inr (Some
                    \<lparr>ins_content = (case resp_content response of [] \<Rightarrow> [] | t # _ \<Rightarrow> t),
                     modelUsed = modelToUse, ins_usage = resp_usage response, ins_cost = cost\<rparr>),
                  tr'))
         | Inl error \<Rightarrow>
             (let tr' = logClaudeApiCall db
                    \<lparr>userId = uid, apiService = ''Claude'', endpoint = modelToUse,
                     tokenCountIn = None, tokenCountOut = None,
                     cost = None, isSuccess = False, errorMessage = Some (err_message error),
                     requestData = (systemPrompt, messages),
                     responseData = ErrorPayload (err_response_data error)\<rparr>
                    (tr @ [ProviderCall attempt modelToUse])
              in if attempt = maxAttempts then
                   (Inl (Error (''AI service request failed after '' @ String_int (int maxAttempts)
                                @ '' attempts: '' @ err_message error)), tr')
                 else if modelToUse = PREMIUM_MODEL cfg \<and> BASIC_MODEL cfg \<noteq> PREMIUM_MODEL cfg then
                   attempt_loop cfg provider db systemPrompt messages uid (BASIC_MODEL cfg)
                     (attempt + 1) tr'
                 else
                   attempt_loop cfg provider db systemPrompt messages uid modelToUse
                     (attempt + 1) (tr' @ [Backoff (1000 * attempt)])))
      else (Inr None, tr))"
  by pat_completeness auto
termination
  by (relation "measure (\<lambda>(cfg, provider, db, systemPrompt, messages, uid, modelToUse, attempt, tr).
        maxAttempts + 1 - attempt)") auto

declare attempt_loop.simps [simp del]

text \<open>\<open>getClaudeInsight(systemPrompt, messages, userPlan, userId)\<close>.\<close>

definition getClaudeInsight ::
  "config \<Rightarrow> (nat \<Rightarrow> string \<Rightarrow> provider_error + response) \<Rightarrow> (nat \<Rightarrow> bool)
   \<Rightarrow> string \<Rightarrow> message list \<Rightarrow> string \<Rightarrow> nat option
   \<Rightarrow> (js_error + insight option) \<times> event list" where
  "getClaudeInsight cfg provider db systemPrompt messages userPlan uid =
     (if \<not> has_client cfg then (Inl (Error ''AI service is currently unavailable.''), [])
      else
        (let modelToUse = (if userPlan = ''premium'' then PREMIUM_MODEL cfg else BASIC_MODEL cfg)
         in attempt_loop cfg provider db systemPrompt messages uid modelToUse 1 []))"

text \<open>Readings of a run.\<close>

fun calls_of :: "event list \<Rightarrow> (nat \<times> string) list" where
  "calls_of [] = []"
| "calls_of (ProviderCall a m # es) = (a, m) # calls_of es"
| "calls_of (_ # es) = calls_of es"

fun writes_of :: "event list \<Rightarrow> api_log list" where
  "writes_of [] = []"
| "writes_of (LedgerWrite r ok # es) = r # writes_of es"
| "writes_of (_ # es) = writes_of es"

fun ledger_of :: "event list \<Rightarrow> api_log list" where
  "ledger_of [] = []"
| "ledger_of (LedgerWrite r ok # es) = (if ok then r # ledger_of es else ledger_of es)"
| "ledger_of (_ # es) = ledger_of es"

fun waits_of :: "event list \<Rightarrow> nat list" where
  "waits_of [] = []"
| "waits_of (Backoff ms # es) = ms # waits_of es"
| "waits_of (_ # es) = waits_of es"

section \<open>actions/astrology.js: choice of the system prompt\<close>

text \<open>What a property read on an object literal can give: one of the four prompt texts
  (each a non-empty template literal; the text itself is not needed), something inherited
  from \<open>Object.prototype\<close>, or \<open>undefined\<close>.\<close>

datatype prompt_value =
    BIRTH_CHART_ANALYSIS
  | PREDICTIONS_TRANSITS
  | COMPATIBILITY_ANALYSIS
  | REMEDIAL_MEASURES
  | Inherited string
  | Undefined

text \<open>The own properties of \<open>SYSTEM_PROMPTS\<close>.\<close>

definition SYSTEM_PROMPTS_own :: "string \<Rightarrow> prompt_value option" where
  "SYSTEM_PROMPTS_own =
     [''BIRTH_CHART_ANALYSIS'' \<mapsto> BIRTH_CHART_ANALYSIS,
      ''PREDICTIONS_TRANSITS'' \<mapsto> PREDICTIONS_TRANSITS,
      ''COMPATIBILITY_ANALYSIS'' \<mapsto> COMPATIBILITY_ANALYSIS,
      ''REMEDIAL_MEASURES'' \<mapsto> REMEDIAL_MEASURES]"

text \<open>The property names of \<open>Object.prototype\<close>, which every object literal inherits:
  methods, and the accessor \<open>__proto__\<close>.\<close>

definition Object_prototype :: "string list" where
  "Object_prototype =
     [''constructor'', ''__defineGetter__'', ''__defineSetter__'', ''hasOwnProperty'',
      ''__lookupGetter__'', ''__lookupSetter__'', ''isPrototypeOf'', ''propertyIsEnumerable'',
      ''toString'', ''valueOf'', ''__proto__'', ''toLocaleString'']"

text \<open>\<open>SYSTEM_PROMPTS[key]\<close>: an own property first, then the prototype.\<close>

definition SYSTEM_PROMPTS :: "string \<Rightarrow> prompt_value" where
  "SYSTEM_PROMPTS key =
     (case SYSTEM_PROMPTS_own key of
        Some v \<Rightarrow> v
      | None \<Rightarrow> if key \<in> set Object_prototype then Inherited key else Undefined)"

text \<open>Only \<open>undefined\<close> is falsy here: the prompt texts are non-empty strings, the
  inherited values functions and objects.\<close>

definition truthy :: "prompt_value \<Rightarrow> bool" where
  "truthy v = (v \<noteq> Undefined)"

text \<open>Line 183 of \<open>getAstrologyReport\<close>:
  \<open>SYSTEM_PROMPTS[analysisType] || SYSTEM_PROMPTS.BIRTH_CHART_ANALYSIS\<close>.\<close>

definition select_system_prompt :: "string \<Rightarrow> prompt_value" where
  "select_system_prompt analysisType =
     (if truthy (SYSTEM_PROMPTS analysisType) then SYSTEM_PROMPTS analysisType
      else SYSTEM_PROMPTS ''BIRTH_CHART_ANALYSIS'')"

section \<open>ephemeris.js: chart calculation on the Swiss Ephemeris\<close>

datatype body =
    SE_SUN | SE_MOON | SE_MERCURY | SE_VENUS | SE_MARS | SE_JUPITER
  | SE_SATURN | SE_URANUS | SE_NEPTUNE | SE_PLUTO | SE_MEAN_NODE

text \<open>The ids of \<open>PLANET_LIST\<close>, in the order \<open>Object.entries\<close> visits them.\<close>

definition PLANET_LIST :: "body list" where
  "PLANET_LIST =
     [SE_SUN, SE_MOON, SE_MERCURY, SE_VENUS, SE_MARS, SE_JUPITER,
      SE_SATURN, SE_URANUS, SE_NEPTUNE, SE_PLUTO, SE_MEAN_NODE]"

fun PLANET_NAMES :: "body \<Rightarrow> string" where
  "PLANET_NAMES SE_SUN = ''Sun''"
| "PLANET_NAMES SE_MOON = ''Moon''"
| "PLANET_NAMES SE_MERCURY = ''Mercury''"
| "PLANET_NAMES SE_VENUS = ''Venus''"
| "PLANET_NAMES SE_MARS = ''Mars''"
| "PLANET_NAMES SE_JUPITER = ''Jupiter''"
| "PLANET_NAMES SE_SATURN = ''Saturn''"
| "PLANET_NAMES SE_URANUS = ''Uranus''"
| "PLANET_NAMES SE_NEPTUNE = ''Neptune''"
| "PLANET_NAMES SE_PLUTO = ''Pluto''"
| "PLANET_NAMES SE_MEAN_NODE = ''Rahu''"

text \<open>The calculation flags: \<open>flags |= sweph.SEFLG_SIDEREAL\<close> sets the second.\<close>

record flags =
  SEFLG_SPEED :: bool
  SEFLG_SIDEREAL :: bool

text \<open>The six numbers \<open>xx[0]\<close> to \<open>xx[5]\<close> of a position, and the answers of
  \<open>swe_calc_ut\<close> and \<open>swe_houses_ex\<close>. An empty \<open>serr\<close> is falsy.\<close>

record position =
  xx0 :: real
  xx1 :: real
  xx2 :: real
  xx3 :: real
  xx4 :: real
  xx5 :: real

record calc_result =
  calc_ret :: int
  calc_xx :: position
  calc_serr :: string

record ascmc =
  ascmc0 :: real
  ascmc1 :: real
  ascmc2 :: real
  ascmc3 :: real

record houses_result =
  houses_ret :: int
  houses_cusps :: "real list"
  houses_ascmc :: ascmc
  houses_serr :: string

record utc_date =
  UTCFullYear :: int
  UTCMonth :: int
  UTCDate :: int
  UTCHours :: int
  UTCMinutes :: int
  UTCSeconds :: int

text \<open>The library \<open>sweph-js\<close> is not part of the repository: its functions and its three
  ayanamsa constants are parameters. The functions that depend on the sidereal mode in
  force take it as their first argument.\<close>

record sweph_lib =
  SEFLG_SIDM_LAHIRI :: nat
  SEFLG_SIDM_RAMAN :: nat
  SEFLG_SIDM_KRISHNAMURTI :: nat
  swe_utc_to_jd :: "int \<Rightarrow> int \<Rightarrow> int \<Rightarrow> int \<Rightarrow> int \<Rightarrow> int \<Rightarrow> int \<times> real"
  swe_get_ayanamsa_ut :: "nat \<Rightarrow> real \<Rightarrow> real"
  swe_calc_ut :: "nat \<Rightarrow> real \<Rightarrow> body \<Rightarrow> flags \<Rightarrow> calc_result"
  swe_houses_ex :: "nat \<Rightarrow> real \<Rightarrow> flags \<Rightarrow> real \<Rightarrow> real \<Rightarrow> nat option \<Rightarrow> houses_result"

text \<open>The two functions of \<open>date-fns\<close> the module uses: \<open>format(toDate(d), 'yyyy-MM-dd')\<close>
  and \<open>zonedTimeToUtc\<close>; both can throw.\<close>

record date_fns =
  format_date :: "string \<Rightarrow> js_error + string"
  zonedTimeToUtc :: "string \<Rightarrow> string \<Rightarrow> js_error + utc_date"

text \<open>The process-wide state of the library: the sidereal mode set by
  \<open>swe_set_sid_mode\<close> (0 is the default), the bodies asked of \<open>swe_calc_ut\<close> so far, and
  whether \<open>swe_close\<close> was called.\<close>

record sweph_state =
  sid_mode :: nat
  calc_log :: "body list"
  closed :: bool

definition AYANAMSA_MODES :: "sweph_lib \<Rightarrow> string \<Rightarrow> nat option" where
  "AYANAMSA_MODES lib =
     [''LAHIRI'' \<mapsto> SEFLG_SIDM_LAHIRI lib,
      ''RAMAN'' \<mapsto> SEFLG_SIDM_RAMAN lib,
      ''KRISHNAMURTI'' \<mapsto> SEFLG_SIDM_KRISHNAMURTI lib]"

definition getJulianDayUT ::
  "sweph_lib \<Rightarrow> date_fns \<Rightarrow> string \<Rightarrow> string \<Rightarrow> string \<Rightarrow> js_error + real" where
  "getJulianDayUT lib dates birthDateObj birthTimeStr timezone =
     (case format_date dates birthDateObj of
        Inl e \<Rightarrow> Inl e
      | Inr day_text \<Rightarrow>
          (let localBirthDateTimeStr = day_text @ ''T'' @ birthTimeStr @ '':00'' in
           case zonedTimeToUtc dates localBirthDateTimeStr timezone of
             Inl e \<Rightarrow> Inl e
           | Inr utcDate \<Rightarrow>
               (let year = UTCFullYear utcDate;
                    month = UTCMonth utcDate + 1;
                    day = UTCDate utcDate;
                    (ret, jdut) = swe_utc_to_jd lib year month day
                                    (UTCHours utcDate) (UTCMinutes utcDate) (UTCSeconds utcDate)
                in if ret < 0 then Inl (Error ''Failed to calculate Julian Day from UTC.'')
                   else Inr jdut)))"

text \<open>An entry of \<open>planets\<close>. Ketu is stored without the two last speeds.\<close>

record planet =
  longitude :: real
  latitude :: real
  distance :: real
  speedLon :: real
  speedLat :: "real option"
  speedDist :: "real option"
  isRetrograde :: bool

text \<open>\<open>obj[key] = value\<close> on an object with string keys: a present key keeps its place, a
  new one comes last.\<close>

fun set_prop :: "(string \<times> 'a) list \<Rightarrow> string \<Rightarrow> 'a \<Rightarrow> (string \<times> 'a) list" where
  "set_prop [] k v = [(k, v)]"
| "set_prop ((k', v') # ps) k v = (if k' = k then (k, v) # ps else (k', v') # set_prop ps k v)"

text \<open>The object stored for a body, from the six numbers \<open>xx\<close>.\<close>

definition planet_entry :: "position \<Rightarrow> planet" where
  "planet_entry xx =
     \<lparr>longitude = xx0 xx, latitude = xx1 xx, distance = xx2 xx, speedLon = xx3 xx,
      speedLat = Some (xx4 xx), speedDist = Some (xx5 xx), isRetrograde = (xx3 xx < 0)\<rparr>"

text \<open>The loop over \<open>PLANET_LIST\<close>: one \<open>swe_calc_ut\<close> for each id, and a throw at the
  first failure.\<close>

fun planet_loop ::
  "sweph_lib \<Rightarrow> real \<Rightarrow> flags \<Rightarrow> body list \<Rightarrow> (string \<times> planet) list \<Rightarrow> sweph_state
   \<Rightarrow> (js_error + (string \<times> planet) list) \<times> sweph_state" where
  "planet_loop lib jdut flgs [] planets st = (Inr planets, st)"
| "planet_loop lib jdut flgs (b # ids) planets st =
     (let r = swe_calc_ut lib (sid_mode st) jdut b flgs;
          st' = st\<lparr>calc_log := calc_log st @ [b]\<rparr>
      in if calc_ret r < 0 \<or> calc_serr r \<noteq> [] then
           (Inl (Error (''Failed to calculate position for '' @ PLANET_NAMES b)), st')
         else
           planet_loop lib jdut flgs ids
             (set_prop planets (PLANET_NAMES b) (planet_entry (calc_xx r))) st')"

record chart_location =
  loc_latitude :: real
  loc_longitude :: real
  loc_timezone :: string

record chart_houses =
  cusps :: "real list"
  ascendant :: real
  mc :: real
  armc :: real
  vertex :: real

record chart =
  chart_jdut :: real
  chart_birthDate :: string
  chart_birthTime :: string
  chart_location :: chart_location
  chart_ayanamsa :: "(string \<times> real) option"
  chart_houseSystem :: string
  chart_planets :: "(string \<times> planet) list"
  chart_houses :: chart_houses

definition charCodeAt0 :: "string \<Rightarrow> nat option" where
  "charCodeAt0 s = (case s of [] \<Rightarrow> None | c # _ \<Rightarrow> Some (of_char c))"

text \<open>\<open>if (ayanamsaMode)\<close>: the mode found in the table, when it is truthy.\<close>

definition truthy_mode :: "nat option \<Rightarrow> nat option" where
  "truthy_mode m = (case m of None \<Rightarrow> None | Some n \<Rightarrow> if n = 0 then None else Some n)"

text \<open>\<open>calculateBirthChartData\<close>, from a state of the library to the result (a chart or the
  error thrown) and the state the call leaves behind.\<close>

definition calculateBirthChartData ::
  "sweph_lib \<Rightarrow> date_fns \<Rightarrow> sweph_state \<Rightarrow> string \<Rightarrow> string \<Rightarrow> real \<Rightarrow> real \<Rightarrow> string
   \<Rightarrow> string \<Rightarrow> string \<Rightarrow> (js_error + chart) \<times> sweph_state" where
  "calculateBirthChartData lib dates st birthDate birthTime obs_latitude obs_longitude timezone
     houseSystemChar ayanamsaName =
     (case getJulianDayUT lib dates birthDate birthTime timezone of
        Inl e \<Rightarrow> (Inl e, st)
      | Inr jdut \<Rightarrow>
          (let ayanamsaMode = truthy_mode (AYANAMSA_MODES lib (toUpperCase ayanamsaName));
               flgs = \<lparr>SEFLG_SPEED = True, SEFLG_SIDEREAL = (ayanamsaMode \<noteq> None)\<rparr>;
               st1 = (case ayanamsaMode of None \<Rightarrow> st | Some m \<Rightarrow> st\<lparr>sid_mode := m\<rparr>);
               ayanamsaValue =
                 (case ayanamsaMode of None \<Rightarrow> 0 | Some m \<Rightarrow> swe_get_ayanamsa_ut lib (sid_mode st1) jdut)
           in case planet_loop lib jdut flgs PLANET_LIST [] st1 of
                (Inl e, st2) \<Rightarrow> (Inl e, st2)
              | (Inr planets, st2) \<Rightarrow>
                  (let planets' =
                         (case map_of planets ''Rahu'' of
                            None \<Rightarrow> planets
                          | Some Rahu \<Rightarrow>
                              set_prop planets ''Ketu''
                                \<lparr>longitude = js_rem (longitude Rahu + 180) 360,
                                 latitude = - latitude Rahu,
                                 distance = distance Rahu,
                                 speedLon = speedLon Rahu,
                                 speedLat = None, speedDist = None,
                                 isRetrograde = isRetrograde Rahu\<rparr>);
                       h = swe_houses_ex lib (sid_mode st2) jdut flgs obs_latitude obs_longitude
                             (charCodeAt0 houseSystemChar)
                   in if houses_ret h < 0 \<or> houses_serr h \<noteq> [] then
                        (Inl (Error ''Failed to calculate house cusps.''), st2)
                      else
                        (let st3 = (case ayanamsaMode of None \<Rightarrow> st2 | Some m \<Rightarrow> st2\<lparr>sid_mode := 0\<rparr>);
                             st4 = st3\<lparr>closed := True\<rparr>
                         in case format_date dates birthDate of
                              Inl e \<Rightarrow> (Inl e, st4)
                            | Inr day_text \<Rightarrow>
                                (Inr \<lparr>chart_jdut = jdut,
                                      chart_birthDate = day_text,
                                      chart_birthTime = birthTime,
                                      chart_location =
                                        \<lparr>loc_latitude = obs_latitude, loc_longitude = obs_longitude,
                                         loc_timezone = timezone\<rparr>,
                                      chart_ayanamsa =
                                        (case ayanamsaMode of None \<Rightarrow> None
                                         | Some m \<Rightarrow> Some (ayanamsaName, ayanamsaValue)),
                                      chart_houseSystem = houseSystemChar,
                                      chart_planets = planets',
                                      chart_houses =
                                        \<lparr>cusps = take 12 (drop 1 (houses_cusps h)),
                                         ascendant = ascmc0 (houses_ascmc h),
                                         mc = ascmc1 (houses_ascmc h),
                                         armc = ascmc2 (houses_ascmc h),
                                         vertex = ascmc3 (houses_ascmc h)\<rparr>\<rparr>,
                                 st4)))))"

section \<open>astroLogic.js: the two serializers\<close>

text \<open>The serializers read a chart parsed from stored JSON: any property can be missing.
  A number is a real or missing; a string or a truth value likewise.\<close>

record xml_location =
  xl_latitude :: "real option"
  xl_longitude :: "real option"
  xl_timezone :: "string option"

record xml_ayanamsa =
  xa_name :: "string option"
  xa_value :: "real option"

record xml_planet =
  xp_longitude :: "real option"
  xp_latitude :: "real option"
  xp_speedLon :: "real option"
  xp_isRetrograde :: "bool option"

record xml_houses =
  xh_cusps :: "real list option"
  xh_ascendant :: "real option"
  xh_mc :: "real option"

record chartData =
  cd_name :: "string option"
  cd_birthDate :: "string option"
  cd_birthTime :: "string option"
  cd_location :: "xml_location option"
  cd_gender :: "string option"
  cd_houseSystem :: "string option"
  cd_ayanamsa :: "xml_ayanamsa option"
  cd_planets :: "(string \<times> xml_planet) list option"
  cd_houses :: "xml_houses option"

record transitData =
  td_date :: "string option"
  td_planets :: "(string \<times> xml_planet) list option"

text \<open>\<open>if (s) xml += f(s)\<close> for a string and for a number that may be missing: an empty
  string and zero are falsy.\<close>

definition when_string :: "string option \<Rightarrow> (string \<Rightarrow> string) \<Rightarrow> string" where
  "when_string s f = (case s of None \<Rightarrow> [] | Some v \<Rightarrow> if v = [] then [] else f v)"

definition when_number :: "real option \<Rightarrow> (real \<Rightarrow> string) \<Rightarrow> string" where
  "when_number x f = (case x of None \<Rightarrow> [] | Some v \<Rightarrow> if v = 0 then [] else f v)"

text \<open>\<open>x.toFixed(f)\<close> on a number: the nearest decimal with \<open>f\<close> places, a tie going away
  from zero; the sign of a negative number is kept. (Magnitudes from \<open>1e21\<close> on, which
  print in exponent form, are left out.)\<close>

definition toFixed :: "nat \<Rightarrow> real \<Rightarrow> string" where
  "toFixed f x =
     (let n = \<lfloor>\<bar>x\<bar> * 10 ^ f + 1 / 2\<rfloor>;
          whole = n div 10 ^ f;
          fraction = n mod 10 ^ f
      in (if x < 0 then ''-'' else []) @ digits whole
         @ (if f = 0 then [] else ''.'' @ padStart f (CHR ''0'') (digits fraction)))"

text \<open>\<open>x.toFixed(f)\<close> where \<open>x\<close> may be missing: a property read on \<open>undefined\<close>
  throws.\<close>

definition toFixed_of :: "nat \<Rightarrow> real option \<Rightarrow> js_error + string" where
  "toFixed_of f x =
     (case x of
        None \<Rightarrow> Inl (undefined_read ''toFixed'')
      | Some v \<Rightarrow> Inr (toFixed f v))"

definition String_bool :: "bool \<Rightarrow> string" where
  "String_bool b = (if b then ''true'' else ''false'')"

text \<open>The lines that both serializers write for the optional speed and retrograde
  flag.\<close>

definition speed_lines :: "xml_planet \<Rightarrow> string" where
  "speed_lines pdata =
     (case xp_speedLon pdata of
        None \<Rightarrow> []
      | Some v \<Rightarrow> ''      <speed_longitude_per_day>'' @ toFixed 6 v @ ''</speed_longitude_per_day>'' @ newline)
     @ (case xp_isRetrograde pdata of
          None \<Rightarrow> []
        | Some b \<Rightarrow> ''      <is_retrograde>'' @ String_bool b @ ''</is_retrograde>'' @ newline)"

text \<open>\<open>if (housePlacement)\<close>: only a house number is truthy.\<close>

definition placement_line :: "placement \<Rightarrow> string" where
  "placement_line hp =
     (case hp of
        House h \<Rightarrow> if h = 0 then []
                   else ''      <house_placement>'' @ String_int h @ ''</house_placement>'' @ newline
      | Null \<Rightarrow> []
      | NaNHouse \<Rightarrow> [])"

text \<open>The loop over \<open>Object.entries(chartData.planets)\<close>, appending to \<open>xml\<close>.\<close>

fun chart_planets_xml ::
  "xml_houses \<Rightarrow> string option \<Rightarrow> (string \<times> xml_planet) list \<Rightarrow> string \<Rightarrow> js_error + string" where
  "chart_planets_xml hs hsys [] xml = Inr xml"
| "chart_planets_xml hs hsys ((name, pdata) # rest) xml =
     (case xp_longitude pdata of
        None \<Rightarrow> Inl (undefined_read ''toFixed'')
      | Some lon \<Rightarrow>
          (let xml1 = xml @ ''    <planet name='' @ dquote @ name @ dquote @ ''>'' @ newline
                 @ ''      <longitude_decimal>'' @ toFixed 6 lon @ ''</longitude_decimal>'' @ newline
                 @ ''      <longitude_formatted>'' @ formatLongitude (Some (Num lon))
                 @ ''</longitude_formatted>'' @ newline
                 @ (case xp_latitude pdata of
                      None \<Rightarrow> []
                    | Some v \<Rightarrow> ''      <latitude_decimal>'' @ toFixed 6 v @ ''</latitude_decimal>'' @ newline)
                 @ speed_lines pdata
           in case getHousePlacement lon (xh_cusps hs) (xh_ascendant hs) hsys of
                Inl e \<Rightarrow> Inl e
              | Inr housePlacement \<Rightarrow>
                  chart_planets_xml hs hsys rest
                    (xml1 @ placement_line housePlacement @ ''    </planet>'' @ newline)))"

text \<open>The callback of \<open>chartData.houses.cusps.forEach\<close>, from cusp number \<open>index + 1\<close>
  on.\<close>

fun cusps_xml :: "real list \<Rightarrow> nat \<Rightarrow> string" where
  "cusps_xml [] number = []"
| "cusps_xml (cusp # rest) number =
     ''    <house_cusp number='' @ dquote @ String_int (int number) @ dquote @ ''>'' @ newline
     @ ''      <longitude_decimal>'' @ toFixed 6 cusp @ ''</longitude_decimal>'' @ newline
     @ ''      <longitude_formatted>'' @ formatLongitude (Some (Num cusp)) @ ''</longitude_formatted>'' @ newline
     @ ''    </house_cusp>'' @ newline
     @ cusps_xml rest (number + 1)"

definition personal_information_xml :: "chartData \<Rightarrow> string" where
  "personal_information_xml cd =
     ''  <personal_information>'' @ newline
     @ when_string (cd_name cd) (\<lambda>v. ''    <name>'' @ v @ ''</name>'' @ newline)
     @ when_string (cd_birthDate cd) (\<lambda>v. ''    <birth_date>'' @ v @ ''</birth_date>'' @ newline)
     @ when_string (cd_birthTime cd) (\<lambda>v. ''    <birth_time>'' @ v @ ''</birth_time>'' @ newline)
     @ (case cd_location cd of
          None \<Rightarrow> []
        | Some loc \<Rightarrow>
            when_string (xl_timezone loc) (\<lambda>tz.
              ''    <birth_location_details>'' @ newline
              @ when_number (xl_latitude loc)
                  (\<lambda>v. ''      <latitude>'' @ toFixed 4 v @ ''</latitude>'' @ newline)
              @ when_number (xl_longitude loc)
                  (\<lambda>v. ''      <longitude>'' @ toFixed 4 v @ ''</longitude>'' @ newline)
              @ ''      <timezone>'' @ tz @ ''</timezone>'' @ newline
              @ ''    </birth_location_details>'' @ newline))
     @ when_string (cd_gender cd) (\<lambda>v. ''    <gender>'' @ v @ ''</gender>'' @ newline)
     @ ''  </personal_information>'' @ newline"

definition astrological_system_xml :: "chartData \<Rightarrow> js_error + string" where
  "astrological_system_xml cd =
     (let head = ''  <astrological_system>'' @ newline
            @ ''    <house_system>''
            @ (case cd_houseSystem cd of
                 None \<Rightarrow> ''Placidus''
               | Some hsys \<Rightarrow> if hsys = [] then ''Placidus'' else hsys)
            @ ''</house_system>'' @ newline;
          tail = ''  </astrological_system>'' @ newline;
          tropical = ''    <calculation_type>Tropical</calculation_type>'' @ newline
      in case cd_ayanamsa cd of
           None \<Rightarrow> Inr (head @ tropical @ tail)
         | Some ay \<Rightarrow>
             (case xa_name ay of
                None \<Rightarrow> Inr (head @ tropical @ tail)
              | Some ay_name \<Rightarrow>
                  if ay_name = [] then Inr (head @ tropical @ tail)
                  else
                    (case toFixed_of 6 (xa_value ay) of
                       Inl e \<Rightarrow> Inl e
                     | Inr value_text \<Rightarrow>
                         Inr (head @ ''    <calculation_type>Sidereal</calculation_type>'' @ newline
                              @ ''    <ayanamsa_name>'' @ ay_name @ ''</ayanamsa_name>'' @ newline
                              @ ''    <ayanamsa_value>'' @ value_text @ ''</ayanamsa_value>'' @ newline
                              @ tail))))"

definition house_cusps_xml :: "xml_houses \<Rightarrow> js_error + string" where
  "house_cusps_xml hs =
     (case toFixed_of 6 (xh_ascendant hs) of
        Inl e \<Rightarrow> Inl e
      | Inr asc_text \<Rightarrow>
          (case toFixed_of 6 (xh_mc hs) of
             Inl e \<Rightarrow> Inl e
           | Inr mc_text \<Rightarrow>
               (case xh_cusps hs of
                  None \<Rightarrow> Inl (undefined_read ''forEach'')
                | Some cs \<Rightarrow>
                    Inr (''  <house_cusps>'' @ newline
                         @ ''    <ascendant_longitude_decimal>'' @ asc_text
                         @ ''</ascendant_longitude_decimal>'' @ newline
                         @ ''    <ascendant_longitude_formatted>''
                         @ formatLongitude (map_option Num (xh_ascendant hs))
                         @ ''</ascendant_longitude_formatted>'' @ newline
                         @ ''    <midheaven_longitude_decimal>'' @ mc_text
                         @ ''</midheaven_longitude_decimal>'' @ newline
                         @ ''    <midheaven_longitude_formatted>''
                         @ formatLongitude (map_option Num (xh_mc hs))
                         @ ''</midheaven_longitude_formatted>'' @ newline
                         @ cusps_xml cs 1
                         @ ''  </house_cusps>'' @ newline))))"

text \<open>\<open>formatBirthChartDataAsXML(chartData)\<close>; \<open>None\<close> is a null or undefined
  argument.\<close>

definition formatBirthChartDataAsXML :: "chartData option \<Rightarrow> js_error + string" where
  "formatBirthChartDataAsXML chartData =
     (case chartData of
        None \<Rightarrow> Inr ''<error>Insufficient chart data provided</error>''
      | Some cd \<Rightarrow>
          (case (cd_planets cd, cd_houses cd) of
             (Some planets, Some hs) \<Rightarrow>
               (case astrological_system_xml cd of
                  Inl e \<Rightarrow> Inl e
                | Inr system_text \<Rightarrow>
                    (case chart_planets_xml hs (cd_houseSystem cd) planets
                            (''<birth_chart_details>'' @ newline @ personal_information_xml cd
                             @ system_text @ ''  <planetary_positions>'' @ newline) of
                       Inl e \<Rightarrow> Inl e
                     | Inr xml \<Rightarrow>
                         (case house_cusps_xml hs of
                            Inl e \<Rightarrow> Inl e
                          | Inr cusps_text \<Rightarrow>
                              Inr (xml @ ''  </planetary_positions>'' @ newline @ cusps_text
                                   @ ''</birth_chart_details>''))))
           | _ \<Rightarrow> Inr ''<error>Insufficient chart data provided</error>''))"

text \<open>The loop over \<open>Object.entries(transitData.planets)\<close>.\<close>

fun transit_planets_xml :: "(string \<times> xml_planet) list \<Rightarrow> string \<Rightarrow> js_error + string" where
  "transit_planets_xml [] xml = Inr xml"
| "transit_planets_xml ((name, pdata) # rest) xml =
     (case xp_longitude pdata of
        None \<Rightarrow> Inl (undefined_read ''toFixed'')
      | Some lon \<Rightarrow>
          transit_planets_xml rest
            (xml @ ''    <planet name='' @ dquote @ name @ dquote @ ''>'' @ newline
             @ ''      <longitude_decimal>'' @ toFixed 6 lon @ ''</longitude_decimal>'' @ newline
             @ ''      <longitude_formatted>'' @ formatLongitude (Some (Num lon))
             @ ''</longitude_formatted>'' @ newline
             @ speed_lines pdata
             @ ''    </planet>'' @ newline))"

text \<open>\<open>formatTransitDataAsXML(transitData)\<close>.\<close>

definition formatTransitDataAsXML :: "transitData option \<Rightarrow> js_error + string" where
  "formatTransitDataAsXML transitData =
     (case transitData of
        None \<Rightarrow> Inr ''<error>Insufficient transit data provided</error>''
      | Some td \<Rightarrow>
          (case (td_date td, td_planets td) of
             (Some date, Some planets) \<Rightarrow>
               if date = [] then Inr ''<error>Insufficient transit data provided</error>''
               else
                 (case transit_planets_xml planets
                         (''<transit_details>'' @ newline
                          @ ''  <transit_date>'' @ date @ ''</transit_date>'' @ newline
                          @ ''  <transiting_planets>'' @ newline) of
                    Inl e \<Rightarrow> Inl e
                  | Inr xml \<Rightarrow>
                      Inr (xml @ ''  </transiting_planets>'' @ newline @ ''</transit_details>''))
           | _ \<Rightarrow> Inr ''<error>Insufficient transit data provided</error>''))"

section \<open>Readings of the specification\<close>

text \<open>A longitude reduced to the circle \<open>[0, 360)\<close>, the length of the arc that leads
  forward from one longitude to another, and the index of the 30-degree sign a longitude
  lies in.\<close>

definition mod360 :: "real \<Rightarrow> real" where
  "mod360 x = x - 360 * of_int \<lfloor>x / 360\<rfloor>"





text \<open>Every request to the provider is followed at once by one row handed to the store,
  for the model requested; no row is written otherwise.\<close>

fun one_write_per_call :: "event list \<Rightarrow> bool" where
  "one_write_per_call [] = True"
| "one_write_per_call (ProviderCall a m # LedgerWrite r ok # es) = (endpoint r = m \<and> one_write_per_call es)"
| "one_write_per_call (Backoff ms # es) = one_write_per_call es"
| "one_write_per_call _ = False"

text \<open>The estimate of a token count, a quarter of the length of a text, and the row that
  reports an attempt: the request for model \<open>m\<close> and what the provider answered to it. A
  failed attempt is reported with the provider's message and without counts or cost. An
  answered attempt is reported with the provider's counts, or, for a count that the
  provider did not report or reported as zero, with the estimate (which for the output
  is NaN when the answer has no content block), and with the cost
  \<open>input / 1e6 * input price + output / 1e6 * output price\<close> at the prices of \<open>m\<close>, the
  economical prices standing when both model ids are the same.\<close>

definition token_estimate :: "string \<Rightarrow> jsnum" where
  "token_estimate text = Num (real (length text) / 4)"

definition attempt_row ::
  "config \<Rightarrow> string \<Rightarrow> message list \<Rightarrow> nat option \<Rightarrow> string \<Rightarrow> provider_error + response
   \<Rightarrow> api_log \<Rightarrow> bool" where
  "attempt_row cfg sys msgs uid m answer row =
     (userId row = uid \<and> apiService row = ''Claude'' \<and> endpoint row = m
      \<and> requestData row = (sys, msgs)
      \<and> (case answer of
            Inl err \<Rightarrow>
              \<not> isSuccess row \<and> tokenCountIn row = None \<and> tokenCountOut row = None
              \<and> cost row = None \<and> errorMessage row = Some (err_message err)
              \<and> responseData row = ErrorPayload (err_response_data err)
          | Inr resp \<Rightarrow>
              isSuccess row \<and> errorMessage row = None
              \<and> responseData row = ContentPayload (resp_content resp)
              \<and> tokenCountIn row
                  = Some (case resp_usage resp of
                            None \<Rightarrow> token_estimate (join newline (map content msgs))
                          | Some u \<Rightarrow>
                              if 0 < input_tokens u then Num (real (input_tokens u))
                              else token_estimate (join newline (map content msgs)))
              \<and> tokenCountOut row
                  = Some (if (case resp_usage resp of None \<Rightarrow> False | Some u \<Rightarrow> 0 < output_tokens u)
                          then Num (real (output_tokens (the (resp_usage resp))))
                          else (case resp_content resp of
                                  [] \<Rightarrow> NaN
                                | t # ts \<Rightarrow> token_estimate t))
              \<and> (\<exists>p. MODEL_PRICING cfg m = Some p
                    \<and> p = (if m = BASIC_MODEL cfg then \<lparr>price_input = 0.25, price_output = 1.25\<rparr>
                            else \<lparr>price_input = 3, price_output = 15\<rparr>)
                    \<and> (case (tokenCountIn row, tokenCountOut row) of
                          (Some (Num i), Some (Num out)) \<Rightarrow>
                            cost row = Some (Num (i / 1000000 * price_input p
                                                  + out / 1000000 * price_output p))
                        | _ \<Rightarrow> cost row = Some NaN))))"

text \<open>A chart that has every property the serializer reads without a guard: a longitude
  for each body, the house system, the ascendant, the midheaven and the cusps, and the
  value of a named ayanamsa. A transit snapshot likewise.\<close>

definition complete_planets :: "(string \<times> xml_planet) list \<Rightarrow> bool" where
  "complete_planets ps = list_all (\<lambda>p. xp_longitude (snd p) \<noteq> None) ps"

definition complete_chart :: "chartData \<Rightarrow> bool" where
  "complete_chart cd =
     (case (cd_planets cd, cd_houses cd) of
        (Some ps, Some hs) \<Rightarrow>
          complete_planets ps \<and> cd_houseSystem cd \<noteq> None
          \<and> xh_cusps hs \<noteq> None \<and> xh_ascendant hs \<noteq> None \<and> xh_mc hs \<noteq> None
          \<and> (case cd_ayanamsa cd of None \<Rightarrow> True | Some ay \<Rightarrow> xa_value ay \<noteq> None)
      | _ \<Rightarrow> False)"

definition complete_transit :: "transitData \<Rightarrow> bool" where
  "complete_transit td =
     (case (td_date td, td_planets td) of
        (Some date, Some ps) \<Rightarrow> date \<noteq> [] \<and> complete_planets ps
      | _ \<Rightarrow> False)"

section \<open>Concrete inputs\<close>

text \<open>The configuration with the default model ids of \<open>claude.js\<close>, a provider that is
  overloaded at the first attempt, one that always is, and a store that accepts or rejects
  every row.\<close>

definition default_config :: config where
  "default_config =
     \<lparr>has_client = True, PREMIUM_MODEL = ''claude-3-5-sonnet-20240620'',
      BASIC_MODEL = ''claude-3-haiku-20240307''\<rparr>"

definition overloaded_error :: provider_error where
  "overloaded_error = \<lparr>err_message = ''Overloaded'', err_response_data = None\<rparr>"

definition fails_once :: "nat \<Rightarrow> string \<Rightarrow> provider_error + response" where
  "fails_once attempt model =
     (if attempt = 1 then Inl overloaded_error
      else Inr \<lparr>resp_content = [''Your Sun is in Leo.''],
                resp_usage = Some \<lparr>input_tokens = 1200, output_tokens = 800\<rparr>\<rparr>)"

definition always_fails :: "nat \<Rightarrow> string \<Rightarrow> provider_error + response" where
  "always_fails attempt model = Inl overloaded_error"

definition answers_without_usage :: "nat \<Rightarrow> string \<Rightarrow> provider_error + response" where
  "answers_without_usage attempt model =
     Inr \<lparr>resp_content = [''Your Sun is in Leo.''], resp_usage = None\<rparr>"

definition store_up :: "nat \<Rightarrow> bool" where
  "store_up n = True"

definition store_down :: "nat \<Rightarrow> bool" where
  "store_down n = False"

definition one_question :: "message list" where
  "one_question = [\<lparr>role = ''user'', content = ''What does my chart say?''\<rparr>]"

text \<open>A library with the ayanamsa codes of the Swiss Ephemeris whose \<open>swe_calc_ut\<close> fails
  for a given body (none, when the body is \<open>None\<close>), and a date library that accepts
  every date.\<close>

definition demo_position :: position where
  "demo_position = \<lparr>xx0 = 200, xx1 = 1, xx2 = 1, xx3 = - 0.05, xx4 = 0, xx5 = 0\<rparr>"

definition demo_houses :: houses_result where
  "demo_houses =
     \<lparr>houses_ret = 0,
      houses_cusps = [0, 10, 40, 70, 100, 130, 160, 190, 220, 250, 280, 310, 340],
      houses_ascmc = \<lparr>ascmc0 = 10, ascmc1 = 280, ascmc2 = 0, ascmc3 = 0\<rparr>,
      houses_serr = []\<rparr>"

definition demo_lib :: "body option \<Rightarrow> sweph_lib" where
  "demo_lib failing =
     \<lparr>SEFLG_SIDM_LAHIRI = 1, SEFLG_SIDM_RAMAN = 3, SEFLG_SIDM_KRISHNAMURTI = 5,
      swe_utc_to_jd = (\<lambda>year month day hour minute second. (0, 2448094)),
      swe_get_ayanamsa_ut = (\<lambda>mode jdut. 23.7),
      swe_calc_ut = (\<lambda>mode jdut b flgs.
        \<lparr>calc_ret = (if failing = Some b then - 1 else 0), calc_xx = demo_position,
         calc_serr = []\<rparr>),
      swe_houses_ex = (\<lambda>mode jdut flgs la lo code. demo_houses)\<rparr>"

definition demo_dates :: date_fns where
  "demo_dates =
     \<lparr>format_date = (\<lambda>d. Inr d),
      zonedTimeToUtc = (\<lambda>local_time zone.
        Inr \<lparr>UTCFullYear = 1990, UTCMonth = 6, UTCDate = 21, UTCHours = 13,
             UTCMinutes = 15, UTCSeconds = 0\<rparr>)\<rparr>"

definition fresh_state :: sweph_state where
  "fresh_state = \<lparr>sid_mode = 0, calc_log = [], closed = False\<rparr>"

text \<open>A frame of twelve cusps thirty degrees apart from 10 degrees on, a chart with one
  body, and the same chart with an empty \<open>houses\<close> object.\<close>

definition demo_cusps :: "real list" where
  "demo_cusps = [10, 40, 70, 100, 130, 160, 190, 220, 250, 280, 310, 340]"

definition demo_planet :: xml_planet where
  "demo_planet =
     \<lparr>xp_longitude = Some 220.5, xp_latitude = Some (- 1.25), xp_speedLon = Some (- 0.053),
      xp_isRetrograde = Some True\<rparr>"

definition demo_chart :: chartData where
  "demo_chart =
     \<lparr>cd_name = Some ''Ada'', cd_birthDate = Some ''1990-07-21'', cd_birthTime = Some ''09:15'',
      cd_location = None, cd_gender = None, cd_houseSystem = Some ''P'', cd_ayanamsa = None,
      cd_planets = Some [(''Sun'', demo_planet)],
      cd_houses = Some \<lparr>xh_cusps = Some demo_cusps, xh_ascendant = Some 10, xh_mc = Some 280\<rparr>\<rparr>"

definition chart_without_house_fields :: chartData where
  "chart_without_house_fields =
     demo_chart\<lparr>cd_houses := Some \<lparr>xh_cusps = None, xh_ascendant = None, xh_mc = None\<rparr>\<rparr>"

definition demo_transit :: transitData where
  "demo_transit = \<lparr>td_date = Some ''2024-01-01'', td_planets = Some [(''Sun'', demo_planet)]\<rparr>"

section \<open>Properties\<close>

subsection \<open>Choice of the system prompt\<close>

lemma select_system_prompt_unknown:
  "key \<notin> dom SYSTEM_PROMPTS_own \<Longrightarrow> key \<notin> set Object_prototype \<Longrightarrow>
   select_system_prompt key = BIRTH_CHART_ANALYSIS"
  by (auto simp add: select_system_prompt_def SYSTEM_PROMPTS_def SYSTEM_PROMPTS_own_def
      truthy_def dom_def split: if_splits)

text \<open>
  C10. An analysis kind that is not a key of the prompt table should get the prompt of
  \<open>BIRTH_CHART_ANALYSIS\<close>. The kind \<open>constructor\<close> is not a key of the table, yet the
  lookup finds the property every object inherits, which is truthy, and the fallback is
  not taken: the value chosen is that inherited function, not the prompt.
\<close>

theorem select_system_prompt_constructor:
  "select_system_prompt ''constructor'' = Inherited ''constructor''
   \<and> ''constructor'' \<notin> dom SYSTEM_PROMPTS_own
   \<and> select_system_prompt ''constructor'' \<noteq> BIRTH_CHART_ANALYSIS"
  by (simp add: select_system_prompt_def SYSTEM_PROMPTS_def SYSTEM_PROMPTS_own_def
      Object_prototype_def truthy_def dom_def)

subsection \<open>Sidereal mode of the library\<close>

text \<open>
  C8. A call that sets the sidereal mode should leave the default mode behind on every
  exit. With the ayanamsa \<open>Lahiri\<close> and a library whose \<open>swe_calc_ut\<close> fails for Mars, the
  call throws from the planet loop, before the reset at the end of the function: the
  state it leaves has the mode of Lahiri (1), not the default (0).
\<close>

theorem sidereal_mode_left_set_on_failure:
  "calculateBirthChartData (demo_lib (Some SE_MARS)) demo_dates fresh_state
     ''1990-07-21'' ''09:15'' 40.7128 (- 74.006) ''America/New_York'' ''P'' ''Lahiri''
   = (Inl (Error ''Failed to calculate position for Mars''),
      \<lparr>sid_mode = 1, calc_log = [SE_SUN, SE_MOON, SE_MERCURY, SE_VENUS, SE_MARS],
       closed = False\<rparr>)"
  by (simp add: calculateBirthChartData_def getJulianDayUT_def demo_lib_def demo_dates_def
      fresh_state_def AYANAMSA_MODES_def truthy_mode_def toUpperCase_def upper_char_def
      PLANET_LIST_def Let_def)

subsection \<open>Insight generation\<close>

lemma calls_of_append [simp]: "calls_of (xs @ ys) = calls_of xs @ calls_of ys"
  by (induction xs rule: calls_of.induct) simp_all

lemma writes_of_append [simp]: "writes_of (xs @ ys) = writes_of xs @ writes_of ys"
  by (induction xs rule: writes_of.induct) simp_all

lemma ledger_of_append [simp]: "ledger_of (xs @ ys) = ledger_of xs @ ledger_of ys"
  by (induction xs rule: ledger_of.induct) simp_all

lemma waits_of_append [simp]: "waits_of (xs @ ys) = waits_of xs @ waits_of ys"
  by (induction xs rule: waits_of.induct) simp_all

lemmas insight_run =
  getClaudeInsight_def attempt_loop.simps maxAttempts_def logClaudeApiCall_def Let_def

text \<open>
  C1. With two distinct model ids and a client, the first request of a call goes to the
  premium model exactly when the plan is \<open>premium\<close>, and to the economical model
  otherwise. When the provider fails at the first attempt, a premium request is followed
  by one request to the economical model with no wait, and any other request by a wait
  of 1000 ms times the attempt number and one request to the same model. A call makes at
  most two requests. The model in a returned result is the model of the last request,
  which is the one the provider answered.
\<close>

theorem getClaudeInsight_models:
  assumes two_models: "PREMIUM_MODEL cfg \<noteq> BASIC_MODEL cfg" and client: "has_client cfg"
  shows
    "(\<exists>m0 rest.
        calls_of (snd (getClaudeInsight cfg provider db sys msgs userPlan uid)) = (1, m0) # rest
        \<and> (m0 = PREMIUM_MODEL cfg) = (userPlan = ''premium'')
        \<and> (m0 = BASIC_MODEL cfg) = (userPlan \<noteq> ''premium'')
        \<and> (\<forall>e. provider 1 m0 = Inl e \<longrightarrow>
              (if m0 = PREMIUM_MODEL cfg
               then rest = [(2, BASIC_MODEL cfg)]
                    \<and> waits_of (snd (getClaudeInsight cfg provider db sys msgs userPlan uid)) = []
               else rest = [(2, m0)]
                    \<and> waits_of (snd (getClaudeInsight cfg provider db sys msgs userPlan uid)) = [1000]))
        \<and> (\<forall>r. provider 1 m0 = Inr r \<longrightarrow> rest = []))
     \<and> length (calls_of (snd (getClaudeInsight cfg provider db sys msgs userPlan uid))) \<le> 2
     \<and> (\<forall>r. fst (getClaudeInsight cfg provider db sys msgs userPlan uid) = Inr (Some r) \<longrightarrow>
           (\<exists>a resp. last (calls_of (snd (getClaudeInsight cfg provider db sys msgs userPlan uid)))
                        = (a, modelUsed r)
                     \<and> provider a (modelUsed r) = Inr resp))
     \<and> fst (getClaudeInsight cfg provider db sys msgs userPlan uid) \<noteq> Inr None"
  using two_models client
  by (auto simp: insight_run split: sum.splits)

theorem getClaudeInsight_models_witness:
  "PREMIUM_MODEL default_config \<noteq> BASIC_MODEL default_config \<and> has_client default_config
   \<and> calls_of (snd (getClaudeInsight default_config fails_once store_up ''You are an astrologer.''
        one_question ''premium'' (Some 7)))
     = [(1, ''claude-3-5-sonnet-20240620''), (2, ''claude-3-haiku-20240307'')]
   \<and> (\<exists>r. fst (getClaudeInsight default_config fails_once store_up ''You are an astrologer.''
        one_question ''premium'' (Some 7)) = Inr (Some r)
        \<and> modelUsed r = ''claude-3-haiku-20240307'')
   \<and> length (ledger_of (snd (getClaudeInsight default_config fails_once store_up
        ''You are an astrologer.'' one_question ''premium'' (Some 7)))) = 2"
  using getClaudeInsight_models [of default_config fails_once store_up "''You are an astrologer.''"
      one_question "''premium''" "Some 7"]
  by (simp add: insight_run default_config_def fails_once_def store_up_def)

text \<open>
  C2, as the claim states it: one ledger record per attempt, and a record for the failed
  attempts before the call raises. It fails when the store rejects the rows: both
  attempts fail, the call raises, and the ledger holds no record.
\<close>

theorem ledger_records_counterexample:
  "fst (getClaudeInsight default_config always_fails store_down ''You are an astrologer.''
          one_question ''basic'' (Some 7))
     = Inl (Error ''AI service request failed after 2 attempts: Overloaded'')
   \<and> length (calls_of (snd (getClaudeInsight default_config always_fails store_down
          ''You are an astrologer.'' one_question ''basic'' (Some 7)))) = 2
   \<and> ledger_of (snd (getClaudeInsight default_config always_fails store_down
          ''You are an astrologer.'' one_question ''basic'' (Some 7))) = []"
  by (simp add: insight_run default_config_def always_fails_def store_down_def overloaded_error_def
      String_int_def digits.simps digit_char_def)

text \<open>
  C2, amended. Every call hands exactly one row to the store per attempt, right after the
  provider's answer and for the model requested, with the success flag of that attempt;
  the rows a store accepts are the ledger's records, so a store that accepts every row
  holds exactly one record per attempt. A call with a client that raises has made two
  failed attempts, raises the message of the last provider error wrapped in
  \<open>AI service request failed after 2 attempts\<close>, and the last thing it did before
  raising was to hand the row of that failed attempt to the store.
\<close>

theorem one_ledger_write_per_attempt:
  "one_write_per_call (snd (getClaudeInsight cfg provider db sys msgs userPlan uid))
   \<and> length (writes_of (snd (getClaudeInsight cfg provider db sys msgs userPlan uid)))
       = length (calls_of (snd (getClaudeInsight cfg provider db sys msgs userPlan uid)))
   \<and> map isSuccess (writes_of (snd (getClaudeInsight cfg provider db sys msgs userPlan uid)))
       = map (\<lambda>c. \<not> isl (provider (fst c) (snd c)))
           (calls_of (snd (getClaudeInsight cfg provider db sys msgs userPlan uid)))
   \<and> ((\<forall>n. db n) \<longrightarrow>
         ledger_of (snd (getClaudeInsight cfg provider db sys msgs userPlan uid))
         = writes_of (snd (getClaudeInsight cfg provider db sys msgs userPlan uid)))
   \<and> (\<forall>e. has_client cfg
            \<and> fst (getClaudeInsight cfg provider db sys msgs userPlan uid) = Inl e \<longrightarrow>
         (\<exists>m err row ok.
            provider 2 m = Inl err
            \<and> e = Error (''AI service request failed after 2 attempts: '' @ err_message err)
            \<and> map isSuccess (writes_of (snd (getClaudeInsight cfg provider db sys msgs userPlan uid)))
                = [False, False]
            \<and> last (snd (getClaudeInsight cfg provider db sys msgs userPlan uid)) = LedgerWrite row ok
            \<and> endpoint row = m \<and> \<not> isSuccess row
            \<and> errorMessage row = Some (err_message err)))"
  by (auto simp: insight_run String_int_def digits.simps digit_char_def numeral_2_eq_2
      split: sum.splits)

theorem one_ledger_write_per_attempt_witness:
  "(\<forall>n. store_up n) \<and> has_client default_config
   \<and> fst (getClaudeInsight default_config always_fails store_up ''You are an astrologer.''
          one_question ''basic'' (Some 7))
      = Inl (Error ''AI service request failed after 2 attempts: Overloaded'')
   \<and> map isSuccess (ledger_of (snd (getClaudeInsight default_config always_fails store_up
          ''You are an astrologer.'' one_question ''basic'' (Some 7)))) = [False, False]"
  using one_ledger_write_per_attempt [of default_config always_fails store_up
      "''You are an astrologer.''" one_question "''basic''" "Some 7"]
  by (simp add: insight_run default_config_def always_fails_def store_up_def overloaded_error_def
      String_int_def digits.simps digit_char_def)

text \<open>
  C7, as the claim states it for every attempt: a failed attempt is recorded with no
  token counts and no cost.
\<close>

theorem failed_attempt_counterexample:
  "map isSuccess (writes_of (snd (getClaudeInsight default_config always_fails store_up
      ''You are an astrologer.'' one_question ''basic'' (Some 7)))) = [False, False]
   \<and> map tokenCountIn (writes_of (snd (getClaudeInsight default_config always_fails store_up
      ''You are an astrologer.'' one_question ''basic'' (Some 7)))) = [None, None]
   \<and> map tokenCountOut (writes_of (snd (getClaudeInsight default_config always_fails store_up
      ''You are an astrologer.'' one_question ''basic'' (Some 7)))) = [None, None]
   \<and> map cost (writes_of (snd (getClaudeInsight default_config always_fails store_up
      ''You are an astrologer.'' one_question ''basic'' (Some 7)))) = [None, None]"
  by (simp add: insight_run default_config_def always_fails_def store_up_def)

text \<open>
  C7, amended. Every attempt of a call hands one row to the store, and that row reports
  the attempt: the model requested and what the provider answered to this attempt. The
  row of a failed attempt has the provider's error message and neither counts nor cost.
  The row of an answered attempt has the provider's input and output counts where the
  provider reported them and they are not zero, and otherwise a quarter of the length of
  the messages joined by line feeds and a quarter of the length of the first content
  block's text; its cost is \<open>input / 1e6 * input price + output / 1e6 * output price\<close>
  at the prices of the model requested. Every attempt of a call but its last one failed.
  The result of a call that returns has the model, the usage and the text of the attempt
  that was answered, which is the last one, and the cost of that attempt's row.
\<close>

theorem tokens_and_cost_per_attempt:
  "list_all2 (\<lambda>c row. attempt_row cfg sys msgs uid (snd c) (provider (fst c) (snd c)) row)
     (calls_of (snd (getClaudeInsight cfg provider db sys msgs userPlan uid)))
     (writes_of (snd (getClaudeInsight cfg provider db sys msgs userPlan uid)))
   \<and> list_all (\<lambda>c. isl (provider (fst c) (snd c)))
        (butlast (calls_of (snd (getClaudeInsight cfg provider db sys msgs userPlan uid))))
   \<and> (\<forall>r. fst (getClaudeInsight cfg provider db sys msgs userPlan uid) = Inr (Some r) \<longrightarrow>
         (\<exists>a resp. last (calls_of (snd (getClaudeInsight cfg provider db sys msgs userPlan uid)))
                      = (a, modelUsed r)
            \<and> provider a (modelUsed r) = Inr resp
            \<and> ins_usage r = resp_usage resp
            \<and> ins_content r = (case resp_content resp of [] \<Rightarrow> [] | t # ts \<Rightarrow> t)
            \<and> Some (ins_cost r)
                = cost (last (writes_of (snd (getClaudeInsight cfg provider db sys msgs userPlan uid))))))"
  by (auto simp: insight_run MODEL_PRICING_def calculateCost_def or_estimate_def
      first_text_estimate_def attempt_row_def token_estimate_def
      split: sum.splits if_splits option.splits list.splits)

theorem tokens_and_cost_per_attempt_witness:
  "map tokenCountIn (writes_of (snd (getClaudeInsight default_config fails_once store_up
          ''You are an astrologer.'' one_question ''premium'' (Some 7))))
     = [None, Some (Num 1200)]
   \<and> map tokenCountOut (writes_of (snd (getClaudeInsight default_config fails_once store_up
          ''You are an astrologer.'' one_question ''premium'' (Some 7))))
     = [None, Some (Num 800)]
   \<and> map cost (writes_of (snd (getClaudeInsight default_config fails_once store_up
          ''You are an astrologer.'' one_question ''premium'' (Some 7))))
     = [None, Some (Num (1200 / 1000000 * 0.25 + 800 / 1000000 * 1.25))]
   \<and> map errorMessage (writes_of (snd (getClaudeInsight default_config fails_once store_up
          ''You are an astrologer.'' one_question ''premium'' (Some 7))))
     = [Some ''Overloaded'', None]
   \<and> fst (getClaudeInsight default_config answers_without_usage store_up ''You are an astrologer.''
          one_question ''basic'' (Some 7))
     = Inr (Some \<lparr>ins_content = ''Your Sun is in Leo.'', modelUsed = ''claude-3-haiku-20240307'',
                  ins_usage = None, ins_cost = Num (59 / 8000000)\<rparr>)
   \<and> map tokenCountIn (writes_of (snd (getClaudeInsight default_config answers_without_usage
          store_up ''You are an astrologer.'' one_question ''basic'' (Some 7))))
     = [Some (Num (23 / 4))]
   \<and> map tokenCountOut (writes_of (snd (getClaudeInsight default_config answers_without_usage
          store_up ''You are an astrologer.'' one_question ''basic'' (Some 7))))
     = [Some (Num (19 / 4))]
   \<and> map cost (writes_of (snd (getClaudeInsight default_config answers_without_usage
          store_up ''You are an astrologer.'' one_question ''basic'' (Some 7))))
     = [Some (Num (23 / 4 / 1000000 * 0.25 + 19 / 4 / 1000000 * 1.25))]"
  using tokens_and_cost_per_attempt [where cfg = default_config and provider = fails_once
      and db = store_up and sys = "''You are an astrologer.''" and msgs = one_question
      and userPlan = "''premium''" and uid = "Some 7"]
    tokens_and_cost_per_attempt [where cfg = default_config and provider = answers_without_usage
      and db = store_up and sys = "''You are an astrologer.''" and msgs = one_question
      and userPlan = "''basic''" and uid = "Some 7"]
  by (simp add: insight_run default_config_def answers_without_usage_def fails_once_def
      store_up_def overloaded_error_def
      one_question_def MODEL_PRICING_def calculateCost_def or_estimate_def
      first_text_estimate_def newline_def)

subsection \<open>Arithmetic of longitudes\<close>

lemma js_rem_nonneg: "0 \<le> a \<Longrightarrow> 0 < b \<Longrightarrow> js_rem a b = a - b * of_int \<lfloor>a / b\<rfloor>"
  by (simp add: js_rem_def js_trunc_def)

lemma floor_rem_bounds:
  fixes a b :: real
  assumes "0 < b"
  shows "0 \<le> a - b * of_int \<lfloor>a / b\<rfloor>" and "a - b * of_int \<lfloor>a / b\<rfloor> < b"
proof -
  have "of_int \<lfloor>a / b\<rfloor> \<le> a / b" by simp
  then have "b * of_int \<lfloor>a / b\<rfloor> \<le> b * (a / b)"
    using assms by (simp only: mult_le_cancel_left_pos)
  then have "b * of_int \<lfloor>a / b\<rfloor> \<le> a" using assms by simp
  then show "0 \<le> a - b * of_int \<lfloor>a / b\<rfloor>" by simp
  have "a / b < of_int \<lfloor>a / b\<rfloor> + 1" by linarith
  then have "b * (a / b) < b * (of_int \<lfloor>a / b\<rfloor> + 1)"
    using assms by (simp only: mult_less_cancel_left_pos)
  then have "a < b * (of_int \<lfloor>a / b\<rfloor> + 1)" using assms by simp
  then show "a - b * of_int \<lfloor>a / b\<rfloor> < b" by (simp add: algebra_simps)
qed

lemma mod360_bounds: "0 \<le> mod360 x" "mod360 x < 360"
  using floor_rem_bounds[of 360 x] by (simp_all add: mod360_def)








subsection \<open>Chart calculation\<close>

lemma set_prop_fresh: "k \<notin> fst ` set ps \<Longrightarrow> set_prop ps k v = ps @ [(k, v)]"
  by (induction ps) auto

lemma planet_loop_state:
  "sid_mode (snd (planet_loop lib jdut flgs ids ps st)) = sid_mode st
   \<and> closed (snd (planet_loop lib jdut flgs ids ps st)) = closed st
   \<and> (isl (fst (planet_loop lib jdut flgs ids ps st))
       \<or> calc_log (snd (planet_loop lib jdut flgs ids ps st)) = calc_log st @ ids)"
proof (induction ids arbitrary: ps st)
  case Nil
  then show ?case by simp
next
  case (Cons b ids)
  show ?case
    using Cons.IH[of "set_prop ps (PLANET_NAMES b)
        (planet_entry (calc_xx (swe_calc_ut lib (sid_mode st) jdut b flgs)))"
        "st\<lparr>calc_log := calc_log st @ [b]\<rparr>"]
    by (auto simp: Let_def)
qed

lemma planet_loop_success:
  assumes "fst (planet_loop lib jdut flgs ids ps st) = Inr ps'"
    and "distinct (map PLANET_NAMES ids)"
    and "PLANET_NAMES ` set ids \<inter> fst ` set ps = {}"
  shows "ps' = ps @ map (\<lambda>b. (PLANET_NAMES b,
                  planet_entry (calc_xx (swe_calc_ut lib (sid_mode st) jdut b flgs)))) ids"
  using assms
proof (induction ids arbitrary: ps st)
  case Nil
  then show ?case by simp
next
  case (Cons b ids)
  let ?v = "planet_entry (calc_xx (swe_calc_ut lib (sid_mode st) jdut b flgs))"
  let ?st = "st\<lparr>calc_log := calc_log st @ [b]\<rparr>"
  from Cons.prems(3) have fresh: "PLANET_NAMES b \<notin> fst ` set ps" by auto
  from Cons.prems(1) have ok: "\<not> (calc_ret (swe_calc_ut lib (sid_mode st) jdut b flgs) < 0
      \<or> calc_serr (swe_calc_ut lib (sid_mode st) jdut b flgs) \<noteq> [])"
    by (auto simp: Let_def split: if_splits)
  with Cons.prems(1) have rec: "fst (planet_loop lib jdut flgs ids (ps @ [(PLANET_NAMES b, ?v)]) ?st) = Inr ps'"
    by (simp add: Let_def set_prop_fresh[OF fresh])
  have d: "distinct (map PLANET_NAMES ids)" using Cons.prems(2) by simp
  have i: "PLANET_NAMES ` set ids \<inter> fst ` set (ps @ [(PLANET_NAMES b, ?v)]) = {}"
    using Cons.prems(2,3) by auto
  from Cons.IH[OF rec d i] show ?case by simp
qed

lemma PLANET_LIST_names:
  "map PLANET_NAMES PLANET_LIST =
     [''Sun'', ''Moon'', ''Mercury'', ''Venus'', ''Mars'', ''Jupiter'', ''Saturn'', ''Uranus'',
      ''Neptune'', ''Pluto'', ''Rahu'']"
  by (simp add: PLANET_LIST_def)

lemma planets_of_chart:
  assumes "fst (planet_loop lib jdut flgs PLANET_LIST [] st) = Inr ps"
  shows "map_of ps ''Rahu''
           = Some (planet_entry (calc_xx (swe_calc_ut lib (sid_mode st) jdut SE_MEAN_NODE flgs)))"
    and "map_of ps ''Ketu'' = None"
    and "''Ketu'' \<notin> fst ` set ps"
proof -
  have "distinct (map PLANET_NAMES PLANET_LIST)" by (simp add: PLANET_LIST_names)
  from planet_loop_success[OF assms this]
  have ps: "ps = map (\<lambda>b. (PLANET_NAMES b,
                  planet_entry (calc_xx (swe_calc_ut lib (sid_mode st) jdut b flgs)))) PLANET_LIST"
    by simp
  show "map_of ps ''Rahu''
           = Some (planet_entry (calc_xx (swe_calc_ut lib (sid_mode st) jdut SE_MEAN_NODE flgs)))"
    unfolding ps by (simp add: PLANET_LIST_def)
  show "map_of ps ''Ketu'' = None" unfolding ps by (simp add: PLANET_LIST_def)
  show "''Ketu'' \<notin> fst ` set ps" unfolding ps by (simp add: PLANET_LIST_def)
qed

lemma map_of_set_prop: "map_of (set_prop ps k v) = (map_of ps)(k \<mapsto> v)"
  by (induction ps) (auto simp: fun_eq_iff)

text \<open>
  C4. A chart that \<open>calculateBirthChartData\<close> returns holds, for each of the eleven bodies
  of \<open>PLANET_LIST\<close> and in that order, the entry made of what \<open>swe_calc_ut\<close> answered for
  that body at the chart's Julian day, with the flags and the sidereal mode of the call,
  and after them Ketu. Rahu is the entry of the mean node. Ketu is made of Rahu's entry
  alone: its longitude is \<open>(Rahu's longitude + 180) % 360\<close>, which for a longitude of Rahu
  from -180 degrees on (so for every longitude in \<open>[0, 360)\<close>) is that sum reduced to
  \<open>[0, 360)\<close>, its latitude is the negation of Rahu's, its distance, speed in longitude
  and retrograde flag are Rahu's, and it has no other speed. The call asked the library
  for the eleven bodies of \<open>PLANET_LIST\<close>, once each: the node once, and nothing for Ketu.
\<close>

theorem ketu_is_antipode_of_rahu:
  assumes "calculateBirthChartData lib dates st birthDate birthTime la lo timezone hsys ayanamsaName
             = (Inr c, st')"
  shows "\<exists>mode flgs rahu ketu.
      mode = (case truthy_mode (AYANAMSA_MODES lib (toUpperCase ayanamsaName)) of
                None \<Rightarrow> sid_mode st | Some m \<Rightarrow> m)
      \<and> flgs = \<lparr>SEFLG_SPEED = True,
                 SEFLG_SIDEREAL = (truthy_mode (AYANAMSA_MODES lib (toUpperCase ayanamsaName)) \<noteq> None)\<rparr>
      \<and> rahu = planet_entry (calc_xx (swe_calc_ut lib mode (chart_jdut c) SE_MEAN_NODE flgs))
      \<and> ketu = \<lparr>longitude = js_rem (longitude rahu + 180) 360, latitude = - latitude rahu,
                 distance = distance rahu, speedLon = speedLon rahu,
                 speedLat = None, speedDist = None, isRetrograde = isRetrograde rahu\<rparr>
      \<and> chart_planets c
          = map (\<lambda>b. (PLANET_NAMES b,
                       planet_entry (calc_xx (swe_calc_ut lib mode (chart_jdut c) b flgs))))
              PLANET_LIST
            @ [(''Ketu'', ketu)]
      \<and> map_of (chart_planets c) ''Rahu'' = Some rahu
      \<and> map_of (chart_planets c) ''Ketu'' = Some ketu
      \<and> longitude ketu = js_rem (longitude rahu + 180) 360
      \<and> (- 180 \<le> longitude rahu \<longrightarrow>
            longitude ketu = mod360 (longitude rahu + 180)
            \<and> 0 \<le> longitude ketu \<and> longitude ketu < 360)
      \<and> latitude ketu = - latitude rahu
      \<and> calc_log st' = calc_log st @ PLANET_LIST
      \<and> count_list (drop (length (calc_log st)) (calc_log st')) SE_MEAN_NODE = 1"
proof -
  let ?mode = "truthy_mode (AYANAMSA_MODES lib (toUpperCase ayanamsaName))"
  let ?flgs = "\<lparr>SEFLG_SPEED = True, SEFLG_SIDEREAL = (?mode \<noteq> None)\<rparr>"
  let ?st1 = "case ?mode of None \<Rightarrow> st | Some m \<Rightarrow> st\<lparr>sid_mode := m\<rparr>"
  let ?m = "case ?mode of None \<Rightarrow> sid_mode st | Some m \<Rightarrow> m"
  obtain jdut where jd: "getJulianDayUT lib dates birthDate birthTime timezone = Inr jdut"
    using assms by (cases "getJulianDayUT lib dates birthDate birthTime timezone")
      (simp_all add: calculateBirthChartData_def)
  obtain res st2 where loop0: "planet_loop lib jdut ?flgs PLANET_LIST [] ?st1 = (res, st2)"
    by (cases "planet_loop lib jdut ?flgs PLANET_LIST [] ?st1") blast
  have run: "(case (res, st2) of
                (Inl e, st2) \<Rightarrow> (Inl e, st2)
              | (Inr planets, st2) \<Rightarrow>
                  (let planets' =
                         (case map_of planets ''Rahu'' of
                            None \<Rightarrow> planets
                          | Some Rahu \<Rightarrow>
                              set_prop planets ''Ketu''
                                \<lparr>longitude = js_rem (longitude Rahu + 180) 360,
                                 latitude = - latitude Rahu,
                                 distance = distance Rahu,
                                 speedLon = speedLon Rahu,
                                 speedLat = None, speedDist = None,
                                 isRetrograde = isRetrograde Rahu\<rparr>);
                       h = swe_houses_ex lib (sid_mode st2) jdut ?flgs la lo (charCodeAt0 hsys)
                   in if houses_ret h < 0 \<or> houses_serr h \<noteq> [] then
                        (Inl (Error ''Failed to calculate house cusps.''), st2)
                      else
                        (let st3 = (case ?mode of None \<Rightarrow> st2 | Some m \<Rightarrow> st2\<lparr>sid_mode := 0\<rparr>);
                             st4 = st3\<lparr>closed := True\<rparr>
                         in case format_date dates birthDate of
                              Inl e \<Rightarrow> (Inl e, st4)
                            | Inr day_text \<Rightarrow>
                                (Inr \<lparr>chart_jdut = jdut,
                                      chart_birthDate = day_text,
                                      chart_birthTime = birthTime,
                                      chart_location =
                                        \<lparr>loc_latitude = la, loc_longitude = lo,
                                         loc_timezone = timezone\<rparr>,
                                      chart_ayanamsa =
                                        (case ?mode of None \<Rightarrow> None
                                         | Some m \<Rightarrow> Some (ayanamsaName,
                                             (case ?mode of None \<Rightarrow> 0
                                              | Some m \<Rightarrow> swe_get_ayanamsa_ut lib (sid_mode ?st1) jdut))),
                                      chart_houseSystem = hsys,
                                      chart_planets = planets',
                                      chart_houses =
                                        \<lparr>cusps = take 12 (drop 1 (houses_cusps h)),
                                         ascendant = ascmc0 (houses_ascmc h),
                                         mc = ascmc1 (houses_ascmc h),
                                         armc = ascmc2 (houses_ascmc h),
                                         vertex = ascmc3 (houses_ascmc h)\<rparr>\<rparr>,
                                 st4)))) = (Inr c, st')"
    using assms unfolding calculateBirthChartData_def jd Let_def loop0[symmetric] by simp
  obtain ps where res: "res = Inr ps"
    using run by (cases res) simp_all
  have loop: "planet_loop lib jdut ?flgs PLANET_LIST [] ?st1 = (Inr ps, st2)"
    using loop0 res by simp
  have st1: "calc_log ?st1 = calc_log st" by (simp split: option.splits)
  have m1: "sid_mode ?st1 = ?m" by (simp split: option.splits)
  have st': "calc_log st' = calc_log st2"
    using run unfolding res by (auto simp: Let_def split: if_splits sum.splits option.splits)
  have jdut: "chart_jdut c = jdut"
    using run unfolding res by (auto simp: Let_def split: if_splits sum.splits option.splits)
  have planets: "chart_planets c =
          (case map_of ps ''Rahu'' of
             None \<Rightarrow> ps
           | Some Rahu \<Rightarrow>
               set_prop ps ''Ketu''
                 \<lparr>longitude = js_rem (longitude Rahu + 180) 360, latitude = - latitude Rahu,
                  distance = distance Rahu, speedLon = speedLon Rahu,
                  speedLat = None, speedDist = None, isRetrograde = isRetrograde Rahu\<rparr>)"
    using run unfolding res by (auto simp: Let_def split: if_splits sum.splits)
  from loop have ok: "fst (planet_loop lib jdut ?flgs PLANET_LIST [] ?st1) = Inr ps"
    by simp
  define rahu where "rahu = planet_entry (calc_xx (swe_calc_ut lib ?m (chart_jdut c) SE_MEAN_NODE ?flgs))"
  define ketu where "ketu = \<lparr>longitude = js_rem (longitude rahu + 180) 360, latitude = - latitude rahu,
                  distance = distance rahu, speedLon = speedLon rahu,
                  speedLat = None, speedDist = None, isRetrograde = isRetrograde rahu\<rparr>"
  have rahu: "map_of ps ''Rahu'' = Some rahu"
    using planets_of_chart(1)[OF ok] unfolding m1 jdut[symmetric] rahu_def .
  have "distinct (map PLANET_NAMES PLANET_LIST)" by (simp add: PLANET_LIST_names)
  from planet_loop_success[OF ok this]
  have ps: "ps = map (\<lambda>b. (PLANET_NAMES b,
                  planet_entry (calc_xx (swe_calc_ut lib ?m (chart_jdut c) b ?flgs)))) PLANET_LIST"
    unfolding m1 jdut[symmetric] by simp
  have cp: "chart_planets c = set_prop ps ''Ketu'' ketu"
    using planets rahu by (simp add: ketu_def)
  have 0: "chart_planets c
          = map (\<lambda>b. (PLANET_NAMES b,
                       planet_entry (calc_xx (swe_calc_ut lib ?m (chart_jdut c) b ?flgs))))
              PLANET_LIST
            @ [(''Ketu'', ketu)]"
    using cp set_prop_fresh[OF planets_of_chart(3)[OF ok], of ketu] ps by simp
  have 1: "map_of (chart_planets c) ''Rahu'' = Some rahu"
    by (simp add: cp map_of_set_prop rahu)
  have 2: "map_of (chart_planets c) ''Ketu'' = Some ketu"
    by (simp add: cp map_of_set_prop)
  have 3: "longitude ketu = js_rem (longitude rahu + 180) 360" "latitude ketu = - latitude rahu"
    by (simp_all add: ketu_def)
  have 4: "- 180 \<le> longitude rahu \<longrightarrow>
            longitude ketu = mod360 (longitude rahu + 180)
            \<and> 0 \<le> longitude ketu \<and> longitude ketu < 360"
  proof
    assume "- 180 \<le> longitude rahu"
    then have "longitude ketu = mod360 (longitude rahu + 180)"
      by (simp add: 3 js_rem_nonneg mod360_def)
    then show "longitude ketu = mod360 (longitude rahu + 180)
            \<and> 0 \<le> longitude ketu \<and> longitude ketu < 360"
      using mod360_bounds[of "longitude rahu + 180"] by simp
  qed
  have 5: "calc_log st' = calc_log st @ PLANET_LIST"
    using planet_loop_state[of lib jdut ?flgs PLANET_LIST "[]" ?st1] loop st1 st'
    by simp
  have 6: "count_list (drop (length (calc_log st)) (calc_log st')) SE_MEAN_NODE = 1"
    by (simp add: 5 PLANET_LIST_def)
  from rahu_def ketu_def 0 1 2 3 4 5 6 show ?thesis by blast
qed

theorem ketu_is_antipode_of_rahu_witness:
  "\<exists>c st'. calculateBirthChartData (demo_lib None) demo_dates fresh_state
       ''1990-07-21'' ''09:15'' 40.7128 (- 74.006) ''America/New_York'' ''P'' ''Lahiri'' = (Inr c, st')
      \<and> map_of (chart_planets c) ''Rahu'' = Some (planet_entry demo_position)
      \<and> (\<exists>ketu. map_of (chart_planets c) ''Ketu'' = Some ketu
             \<and> longitude ketu = 20 \<and> latitude ketu = - 1)
      \<and> map fst (chart_planets c)
          = [''Sun'', ''Moon'', ''Mercury'', ''Venus'', ''Mars'', ''Jupiter'', ''Saturn'',
             ''Uranus'', ''Neptune'', ''Pluto'', ''Rahu'', ''Ketu'']
      \<and> length (calc_log st') = 11 \<and> sid_mode st' = 0"
proof -
  let ?run = "calculateBirthChartData (demo_lib None) demo_dates fresh_state
       ''1990-07-21'' ''09:15'' 40.7128 (- 74.006) ''America/New_York'' ''P'' ''Lahiri''"
  note defs = calculateBirthChartData_def getJulianDayUT_def demo_lib_def demo_dates_def
      fresh_state_def AYANAMSA_MODES_def truthy_mode_def toUpperCase_def upper_char_def
      PLANET_LIST_def Let_def demo_houses_def
  define c where "c = projr (fst ?run)"
  define s where "s = snd ?run"
  have "\<not> isl (fst ?run)" by (simp add: defs)
  then have run: "?run = (Inr c, s)"
    by (simp add: prod_eq_iff c_def s_def)
  have facts: "map_of (chart_planets c) ''Rahu'' = Some (planet_entry demo_position)"
      "sid_mode s = 0" "calc_log fresh_state = []"
    unfolding c_def s_def by (simp_all add: defs)
  have rem: "js_rem (200 + 180) 360 = 20" by (simp add: js_rem_def js_trunc_def)
  from ketu_is_antipode_of_rahu[OF run] obtain mode flgs rahu ketu where
    cp: "chart_planets c
          = map (\<lambda>b. (PLANET_NAMES b,
                       planet_entry (calc_xx (swe_calc_ut (demo_lib None) mode
                                                (chart_jdut c) b flgs))))
              PLANET_LIST
            @ [(''Ketu'', ketu)]"
    and r: "map_of (chart_planets c) ''Rahu'' = Some rahu"
    and k0: "map_of (chart_planets c) ''Ketu'' = Some ketu"
    and lon: "longitude ketu = js_rem (longitude rahu + 180) 360"
    and lat: "latitude ketu = - latitude rahu"
    and log: "calc_log s = calc_log fresh_state @ PLANET_LIST"
    by blast
  from r facts(1) have rahu: "rahu = planet_entry demo_position" by simp
  have "longitude ketu = 20" "latitude ketu = - 1"
    using lon lat rem by (simp_all add: rahu planet_entry_def demo_position_def)
  with k0 have k: "\<exists>ketu. map_of (chart_planets c) ''Ketu'' = Some ketu
             \<and> longitude ketu = 20 \<and> latitude ketu = - 1"
    by blast
  have n: "map fst (chart_planets c)
          = [''Sun'', ''Moon'', ''Mercury'', ''Venus'', ''Mars'', ''Jupiter'', ''Saturn'',
             ''Uranus'', ''Neptune'', ''Pluto'', ''Rahu'', ''Ketu'']"
    unfolding cp by (simp add: PLANET_LIST_def)
  have l: "length (calc_log s) = 11"
    unfolding log by (simp add: PLANET_LIST_def facts(3))
  have "\<exists>st'. ?run = (Inr c, st')
      \<and> map_of (chart_planets c) ''Rahu'' = Some (planet_entry demo_position)
      \<and> (\<exists>ketu. map_of (chart_planets c) ''Ketu'' = Some ketu
             \<and> longitude ketu = 20 \<and> latitude ketu = - 1)
      \<and> map fst (chart_planets c)
          = [''Sun'', ''Moon'', ''Mercury'', ''Venus'', ''Mars'', ''Jupiter'', ''Saturn'',
             ''Uranus'', ''Neptune'', ''Pluto'', ''Rahu'', ''Ketu'']
      \<and> length (calc_log st') = 11 \<and> sid_mode st' = 0"
    apply (rule exI[of _ s])
    using run facts(1) k n l facts(2) by (intro conjI)
  show ?thesis
    by (rule exI[of _ c]) fact
qed

subsection \<open>Longitude formatting and whole-sign houses\<close>







subsection \<open>The serializers\<close>

lemma getHousePlacement_returns:
  "\<exists>hp. getHousePlacement lon cs asc (Some hsys) = Inr hp"
  by (simp add: getHousePlacement_def Let_def split: option.splits)

lemma chart_planets_xml_complete:
  "complete_planets ps \<Longrightarrow> \<exists>t. chart_planets_xml hs (Some hsys) ps xml = Inr (xml @ t)"
proof (induction ps arbitrary: xml)
  case Nil
  then show ?case by simp
next
  case (Cons p ps)
  obtain name pdata where p: "p = (name, pdata)" by (cases p)
  from Cons.prems p obtain lon where lon: "xp_longitude pdata = Some lon"
    and rest: "complete_planets ps"
    by (auto simp: complete_planets_def)
  obtain hp where hp: "getHousePlacement lon (xh_cusps hs) (xh_ascendant hs) (Some hsys) = Inr hp"
    using getHousePlacement_returns by blast
  show ?case
    unfolding p chart_planets_xml.simps lon option.case Let_def hp sum.case
    using Cons.IH[OF rest] by (metis append.assoc)
qed

lemma transit_planets_xml_complete:
  "complete_planets ps \<Longrightarrow> \<exists>t. transit_planets_xml ps xml = Inr (xml @ t)"
proof (induction ps arbitrary: xml)
  case Nil
  then show ?case by simp
next
  case (Cons p ps)
  obtain name pdata where p: "p = (name, pdata)" by (cases p)
  from Cons.prems p obtain lon where lon: "xp_longitude pdata = Some lon"
    and rest: "complete_planets ps"
    by (auto simp: complete_planets_def)
  show ?case
    unfolding p transit_planets_xml.simps lon option.case
    using Cons.IH[OF rest] by (metis append.assoc)
qed

lemma astrological_system_xml_complete:
  assumes "case cd_ayanamsa cd of None \<Rightarrow> True | Some ay \<Rightarrow> xa_value ay \<noteq> None"
  shows "\<exists>t. astrological_system_xml cd = Inr t"
  using assms
  by (auto simp: astrological_system_xml_def Let_def toFixed_of_def split: option.splits)

lemma house_cusps_xml_complete:
  assumes "xh_cusps hs \<noteq> None" "xh_ascendant hs \<noteq> None" "xh_mc hs \<noteq> None"
  shows "\<exists>t. house_cusps_xml hs = Inr t"
  using assms by (auto simp: house_cusps_xml_def toFixed_of_def split: option.splits)

text \<open>
  C9, as the claim states it: incomplete input never makes a serializer throw. A chart
  whose \<open>houses\<close> object has none of its fields passes the guard at the top, and the
  read of \<open>chartData.houses.ascendant.toFixed\<close> throws a TypeError.
\<close>

theorem serializer_throws_counterexample:
  "formatBirthChartDataAsXML (Some chart_without_house_fields) = Inl (undefined_read ''toFixed'')"
  by (simp add: formatBirthChartDataAsXML_def chart_without_house_fields_def demo_chart_def
      demo_planet_def astrological_system_xml_def house_cusps_xml_def toFixed_of_def
      getHousePlacement_def Let_def)

text \<open>
  C9, amended. Each serializer returns its error marker, and does not throw, when its
  argument is null or lacks a top-level part: \<open>planets\<close> or \<open>houses\<close> for a chart, the
  date (missing or empty) or \<open>planets\<close> for a transit snapshot. On a complete chart (a
  longitude for every body, a house system, ascendant, midheaven and cusps, and a value
  for a named ayanamsa) and on a complete transit snapshot, it returns the tagged text,
  which opens with \<open><birth_chart_details>\<close> (\<open><transit_details>\<close>) and closes with the
  matching tag, so it is not the marker.
\<close>

theorem serializers_marker_or_text:
  "formatBirthChartDataAsXML None = Inr ''<error>Insufficient chart data provided</error>''
   \<and> (cd_planets cd = None \<or> cd_houses cd = None \<longrightarrow>
        formatBirthChartDataAsXML (Some cd) = Inr ''<error>Insufficient chart data provided</error>'')
   \<and> (complete_chart cd \<longrightarrow>
        (\<exists>body. formatBirthChartDataAsXML (Some cd)
                  = Inr (''<birth_chart_details>'' @ body @ ''</birth_chart_details>'')))
   \<and> formatTransitDataAsXML None = Inr ''<error>Insufficient transit data provided</error>''
   \<and> (td_date td = None \<or> td_date td = Some [] \<or> td_planets td = None \<longrightarrow>
        formatTransitDataAsXML (Some td) = Inr ''<error>Insufficient transit data provided</error>'')
   \<and> (complete_transit td \<longrightarrow>
        (\<exists>body. formatTransitDataAsXML (Some td)
                  = Inr (''<transit_details>'' @ body @ ''</transit_details>'')))"
proof (intro conjI impI)
  show "formatBirthChartDataAsXML None = Inr ''<error>Insufficient chart data provided</error>''"
    by (simp add: formatBirthChartDataAsXML_def)
  show "formatTransitDataAsXML None = Inr ''<error>Insufficient transit data provided</error>''"
    by (simp add: formatTransitDataAsXML_def)
next
  assume "cd_planets cd = None \<or> cd_houses cd = None"
  then show "formatBirthChartDataAsXML (Some cd) = Inr ''<error>Insufficient chart data provided</error>''"
    by (auto simp: formatBirthChartDataAsXML_def split: option.splits)
next
  assume "td_date td = None \<or> td_date td = Some [] \<or> td_planets td = None"
  then show "formatTransitDataAsXML (Some td) = Inr ''<error>Insufficient transit data provided</error>''"
    by (auto simp: formatTransitDataAsXML_def split: option.splits)
next
  assume c: "complete_chart cd"
  then obtain ps hs hsys where ps: "cd_planets cd = Some ps" and hs: "cd_houses cd = Some hs"
    and hsys: "cd_houseSystem cd = Some hsys" and cps: "complete_planets ps"
    and h: "xh_cusps hs \<noteq> None" "xh_ascendant hs \<noteq> None" "xh_mc hs \<noteq> None"
    and ay: "case cd_ayanamsa cd of None \<Rightarrow> True | Some ay \<Rightarrow> xa_value ay \<noteq> None"
    by (auto simp: complete_chart_def split: option.splits)
  obtain sys_text where 1: "astrological_system_xml cd = Inr sys_text"
    using astrological_system_xml_complete[OF ay] by blast
  obtain t where 2: "chart_planets_xml hs (Some hsys) ps
        (''<birth_chart_details>'' @ newline @ personal_information_xml cd
         @ sys_text @ ''  <planetary_positions>'' @ newline)
      = Inr ((''<birth_chart_details>'' @ newline @ personal_information_xml cd
         @ sys_text @ ''  <planetary_positions>'' @ newline) @ t)"
    using chart_planets_xml_complete[OF cps] by blast
  obtain cusps_text where 3: "house_cusps_xml hs = Inr cusps_text"
    using house_cusps_xml_complete[OF h] by blast
  have "formatBirthChartDataAsXML (Some cd)
      = Inr (''<birth_chart_details>'' @ (newline @ personal_information_xml cd
         @ sys_text @ ''  <planetary_positions>'' @ newline @ t
         @ ''  </planetary_positions>'' @ newline @ cusps_text) @ ''</birth_chart_details>'')"
    by (simp only: formatBirthChartDataAsXML_def ps hs hsys option.case prod.case sum.case
        1 2 3 append_assoc)
  then show "\<exists>body. formatBirthChartDataAsXML (Some cd)
                  = Inr (''<birth_chart_details>'' @ body @ ''</birth_chart_details>'')"
    by blast
next
  assume c: "complete_transit td"
  then obtain date ps where d: "td_date td = Some date" "date \<noteq> []"
    and ps: "td_planets td = Some ps" and cps: "complete_planets ps"
    by (auto simp: complete_transit_def split: option.splits)
  obtain t where 2: "transit_planets_xml ps
        (''<transit_details>'' @ newline @ ''  <transit_date>'' @ date @ ''</transit_date>'' @ newline
         @ ''  <transiting_planets>'' @ newline)
      = Inr ((''<transit_details>'' @ newline @ ''  <transit_date>'' @ date @ ''</transit_date>'' @ newline
         @ ''  <transiting_planets>'' @ newline) @ t)"
    using transit_planets_xml_complete[OF cps] by blast
  have "formatTransitDataAsXML (Some td)
      = Inr (''<transit_details>'' @ (newline @ ''  <transit_date>'' @ date @ ''</transit_date>'' @ newline
         @ ''  <transiting_planets>'' @ newline @ t @ ''  </transiting_planets>'' @ newline)
         @ ''</transit_details>'')"
    using d(2)
    by (simp only: formatTransitDataAsXML_def d(1) ps option.case prod.case sum.case if_False
        2 append_assoc)
  then show "\<exists>body. formatTransitDataAsXML (Some td)
                  = Inr (''<transit_details>'' @ body @ ''</transit_details>'')"
    by blast
qed

theorem serializers_marker_or_text_witness:
  "complete_chart demo_chart \<and> complete_transit demo_transit
   \<and> cd_planets (demo_chart\<lparr>cd_planets := None\<rparr>) = None
   \<and> td_date (demo_transit\<lparr>td_date := Some []\<rparr>) = Some []
   \<and> formatBirthChartDataAsXML (Some (demo_chart\<lparr>cd_planets := None\<rparr>))
       = Inr ''<error>Insufficient chart data provided</error>''
   \<and> formatTransitDataAsXML (Some (demo_transit\<lparr>td_date := Some []\<rparr>))
       = Inr ''<error>Insufficient transit data provided</error>''
   \<and> (\<exists>body. formatBirthChartDataAsXML (Some demo_chart)
                  = Inr (''<birth_chart_details>'' @ body @ ''</birth_chart_details>''))
   \<and> (\<exists>body. formatTransitDataAsXML (Some demo_transit)
                  = Inr (''<transit_details>'' @ body @ ''</transit_details>''))"
proof -
  have c: "complete_chart demo_chart" "complete_transit demo_transit"
    by (simp_all add: complete_chart_def complete_transit_def complete_planets_def
        demo_chart_def demo_transit_def demo_planet_def del: not_None_eq)
  have m: "cd_planets (demo_chart\<lparr>cd_planets := None\<rparr>) = None"
    "td_date (demo_transit\<lparr>td_date := Some []\<rparr>) = Some []"
    by simp_all
  from c m serializers_marker_or_text[of "demo_chart\<lparr>cd_planets := None\<rparr>" "demo_transit\<lparr>td_date := Some []\<rparr>"]
    serializers_marker_or_text[of demo_chart demo_transit]
  show ?thesis by blast
qed

subsection \<open>Houses of a quadrant system\<close>














end
